theory Spec2Isabelle
  imports Main "HOL-Library.Word"
begin

section \<open>Bytes, integers and hexadecimal text\<close>

text \<open>
  A Node \<open>Buffer\<close> is a list of bytes. The conversions below are the ones the transaction
  code reaches through \<open>ethereumjs-util\<close>, \<open>rlp\<close>, \<open>bn.js\<close> and \<open>ethers\<close>; each
  definition names the library function it stands for.
\<close>

type_synonym byte = "8 word"
type_synonym bytes = "byte list"

text \<open>The big-endian digits of a number in base 256, none for 0.\<close>

fun be_bytes :: "nat \<Rightarrow> bytes" where
  "be_bytes n = (if n = 0 then [] else be_bytes (n div 256) @ [of_nat (n mod 256)])"

declare be_bytes.simps [simp del]

text \<open>
  \<open>ethUtil.intToBuffer(i)\<close>: \<open>Buffer.from(padToEven(i.toString(16)), 'hex')\<close>. The number 0
  prints as \<open>'0'\<close>, padded to \<open>'00'\<close>: one zero byte.
\<close>

definition intToBuffer :: "nat \<Rightarrow> bytes" where
  "intToBuffer i = (if i = 0 then [0] else be_bytes i)"

text \<open>\<open>new BN(buffer)\<close>: the bytes read as an unsigned big-endian integer.\<close>

definition bn :: "bytes \<Rightarrow> nat" where
  "bn bs = foldl (\<lambda>a b. 256 * a + unat b) 0 bs"

text \<open>\<open>ethUtil.stripZeros\<close> (\<open>unpad\<close>): drops the leading zero bytes.\<close>

definition stripZeros :: "bytes \<Rightarrow> bytes" where
  "stripZeros a = dropWhile (\<lambda>b. b = 0) a"

text \<open>
  \<open>ethUtil.setLength(msg, length)\<close> (left variant): pads with zero bytes on the left, or
  keeps the last \<open>length\<close> bytes (\<open>msg.slice(-length)\<close>).
\<close>

definition setLength :: "bytes \<Rightarrow> nat \<Rightarrow> bytes" where
  "setLength msg n =
     (if length msg < n then replicate (n - length msg) 0 @ msg
      else drop (length msg - n) msg)"

datatype error =
    AssertionError      \<comment> \<open>a failed \<open>assert\<close> of ethereumjs-util\<close>
  | InvalidSignature    \<comment> \<open>\<open>Error('Invalid Signature')\<close>, and a throw of \<open>ecrecover\<close>\<close>
  | TypeError           \<comment> \<open>a method called on \<open>undefined\<close> or on an array\<close>
  | InvalidType         \<comment> \<open>\<open>Error('invalid type')\<close> of \<open>rlp.encode\<close>\<close>
  | InvalidRlp          \<comment> \<open>a throw of \<open>RLP.decode\<close>\<close>
  | NumericFault        \<comment> \<open>\<open>toNumber\<close> on more than 53 bits\<close>
  | SignFailure         \<comment> \<open>a throw of \<open>secp256k1.sign\<close>\<close>
  | Unmodelled          \<comment> \<open>an input outside the modelled domain\<close>

text \<open>
  \<open>ethUtil.bufferToInt(buf)\<close> is \<open>new BN(buf).toNumber()\<close>, and \<open>toNumber\<close> asserts that
  the value fits 53 bits.
\<close>

definition bufferToInt :: "bytes \<Rightarrow> error + nat" where
  "bufferToInt buf = (if bn buf < 2 ^ 53 then Inr (bn buf) else Inl NumericFault)"

subsection \<open>Hexadecimal text\<close>

definition hexval :: "char \<Rightarrow> nat option" where
  "hexval c =
     (let n = (of_char c :: nat) in
      if 48 \<le> n \<and> n \<le> 57 then Some (n - 48)
      else if 97 \<le> n \<and> n \<le> 102 then Some (n - 87)
      else if 65 \<le> n \<and> n \<le> 70 then Some (n - 55)
      else None)"

text \<open>
  \<open>Buffer.from(s, 'hex')\<close>: two digits a byte, stopping at the first pair that is not two
  hexadecimal digits; a trailing single character is dropped.
\<close>

fun hex_decode :: "string \<Rightarrow> bytes" where
  "hex_decode (a # b # cs) =
     (case (hexval a, hexval b) of
        (Some x, Some y) \<Rightarrow> of_nat (16 * x + y) # hex_decode cs
      | _ \<Rightarrow> [])"
| "hex_decode _ = []"

definition hexdigit :: "nat \<Rightarrow> char" where
  "hexdigit n = ''0123456789abcdef'' ! n"

definition hex_byte :: "byte \<Rightarrow> string" where
  "hex_byte b = [hexdigit (unat b div 16), hexdigit (unat b mod 16)]"

text \<open>
  \<open>hexlify\<close> of ethers, and \<open>ethUtil.bufferToHex\<close>: \<open>'0x'\<close> and two lower-case digits a
  byte.
\<close>

definition hexlify :: "bytes \<Rightarrow> string" where
  "hexlify bs = ''0x'' @ concat (map hex_byte bs)"

text \<open>\<open>s.substring(2)\<close>.\<close>

definition substring2 :: "string \<Rightarrow> string" where
  "substring2 s = drop 2 s"

text \<open>\<open>isHexPrefixed\<close>: the text starts with \<open>0x\<close>.\<close>

definition isHexPrefixed :: "string \<Rightarrow> bool" where
  "isHexPrefixed s = (take 2 s = ''0x'')"

text \<open>\<open>isHexString\<close>: \<open>/^0x[0-9A-Fa-f]*$/\<close>.\<close>

definition isHexString :: "string \<Rightarrow> bool" where
  "isHexString s = (isHexPrefixed s \<and> list_all (\<lambda>c. hexval c \<noteq> None) (drop 2 s))"

text \<open>\<open>padToEven\<close>: a leading \<open>'0'\<close> for a text of odd length.\<close>

definition padToEven :: "string \<Rightarrow> string" where
  "padToEven s = (if odd (length s) then CHR ''0'' # s else s)"

text \<open>
  \<open>Buffer.from(s)\<close>: the UTF-8 bytes of a text. The texts of this program hold code units
  below 256 only (a \<open>char\<close>), which take one byte below 128 and two from there on.
\<close>

definition utf8_char :: "char \<Rightarrow> bytes" where
  "utf8_char c =
     (let n = (of_char c :: nat) in
      if n < 128 then [of_nat n] else [of_nat (192 + n div 64), of_nat (128 + n mod 64)])"

definition utf8 :: "string \<Rightarrow> bytes" where
  "utf8 s = concat (map utf8_char s)"

text \<open>
  \<open>bigNumberify(s).toNumber()\<close> of ethers on the hexadecimal texts that \<open>RLP.decode\<close>
  returns (\<open>'0x'\<close> reads as 0); \<open>toNumber\<close> throws beyond 53 bits. A text that is not
  hexadecimal is outside the modelled domain.
\<close>

definition bigNumberify :: "string \<Rightarrow> error + nat" where
  "bigNumberify s =
     (if isHexString s then Inr (bn (hex_decode (padToEven (substring2 s)))) else Inl Unmodelled)"

definition toNumber :: "nat \<Rightarrow> error + nat" where
  "toNumber n = (if n < 2 ^ 53 then Inr n else Inl NumericFault)"

section \<open>RLP encoding\<close>

text \<open>
  The values that reach \<open>rlp.encode\<close> and the field setters: a \<open>Buffer\<close>, a non-negative
  number, a text, \<open>undefined\<close>, and any other object (it has no \<open>toArray\<close>).
\<close>

datatype jsval = Buf bytes | Num nat | Str string | Undefined | Obj

text \<open>
  The \<open>toBuffer\<close> of the \<open>rlp\<close> package: a text with the \<open>0x\<close> prefix is read as
  hexadecimal and any other text as UTF-8; the number 0 and \<open>undefined\<close> are the empty
  buffer; an object without \<open>toArray\<close> throws.
\<close>

fun rlp_toBuffer :: "jsval \<Rightarrow> error + bytes" where
  "rlp_toBuffer (Buf b) = Inr b"
| "rlp_toBuffer (Str s) =
     (if isHexPrefixed s then Inr (hex_decode (padToEven (substring2 s))) else Inr (utf8 s))"
| "rlp_toBuffer (Num n) = (if n = 0 then Inr [] else Inr (intToBuffer n))"
| "rlp_toBuffer Undefined = Inr []"
| "rlp_toBuffer Obj = Inl InvalidType"

text \<open>\<open>encodeLength(len, offset)\<close> of the \<open>rlp\<close> package.\<close>

definition encodeLength :: "nat \<Rightarrow> nat \<Rightarrow> bytes" where
  "encodeLength len offset =
     (if len < 56 then [of_nat (len + offset)]
      else of_nat (offset + 55 + length (be_bytes len)) # be_bytes len)"

text \<open>
  \<open>rlp.encode\<close> of one item that is not an array: a single byte below 128 stands for
  itself, any other buffer follows its length.
\<close>

definition encode_buffer :: "bytes \<Rightarrow> bytes" where
  "encode_buffer b =
     (if length b = 1 \<and> hd b < 128 then b else encodeLength (length b) 128 @ b)"

definition rlp_encode_item :: "jsval \<Rightarrow> error + bytes" where
  "rlp_encode_item v =
     (case rlp_toBuffer v of Inl e \<Rightarrow> Inl e | Inr b \<Rightarrow> Inr (encode_buffer b))"

text \<open>The loop of \<open>rlp.encode\<close> over an array: the first item that throws ends it.\<close>

fun rlp_encode_items :: "jsval list \<Rightarrow> error + bytes" where
  "rlp_encode_items [] = Inr []"
| "rlp_encode_items (v # vs) =
     (case rlp_encode_item v of
        Inl e \<Rightarrow> Inl e
      | Inr b \<Rightarrow> (case rlp_encode_items vs of Inl e \<Rightarrow> Inl e | Inr bs \<Rightarrow> Inr (b @ bs)))"

text \<open>\<open>rlp.encode\<close> of an array of such items.\<close>

definition rlp_encode :: "jsval list \<Rightarrow> error + bytes" where
  "rlp_encode input =
     (case rlp_encode_items input of
        Inl e \<Rightarrow> Inl e
      | Inr buf \<Rightarrow> Inr (encodeLength (length buf) 192 @ buf))"

section \<open>The primitives of secp256k1 and Keccak\<close>

text \<open>
  The hash function and the elliptic-curve operations are native code of the packages
  \<open>keccak\<close> and \<open>secp256k1\<close>, outside this repository: they are parameters of the model.
  \<^item> \<open>keccak256\<close>: \<open>ethUtil.sha3\<close>, the Keccak-256 digest;
  \<^item> \<open>secp_recover msgHash signature recovery\<close>: \<open>secp256k1.recover\<close> followed by
    \<open>publicKeyConvert(_, false).slice(1)\<close>, the 64-byte public key, \<open>None\<close> when it throws;
  \<^item> \<open>secp_sign msgHash privateKey\<close>: \<open>secp256k1.sign\<close>, the 64-byte signature and the
    recovery id, \<open>None\<close> when it throws;
  \<^item> \<open>secp_public privateKey\<close>: \<open>ethUtil.privateToPublic\<close>.
\<close>

record crypto =
  keccak256 :: "bytes \<Rightarrow> bytes"
  secp_recover :: "bytes \<Rightarrow> bytes \<Rightarrow> nat \<Rightarrow> bytes option"
  secp_sign :: "bytes \<Rightarrow> bytes \<Rightarrow> (bytes \<times> nat) option"
  secp_public :: "bytes \<Rightarrow> bytes"

text \<open>\<open>ethUtil.rlphash(a)\<close>: \<open>sha3(rlp.encode(a))\<close>.\<close>

definition rlphash :: "crypto \<Rightarrow> jsval list \<Rightarrow> error + bytes" where
  "rlphash c a = (case rlp_encode a of Inl e \<Rightarrow> Inl e | Inr b \<Rightarrow> Inr (keccak256 c b))"

text \<open>
  \<open>ethUtil.ecrecover(msgHash, v, r, s)\<close>: the recovery id is \<open>v - 27\<close> and must be 0 or 1.
\<close>

definition ecrecover :: "crypto \<Rightarrow> bytes \<Rightarrow> int \<Rightarrow> bytes \<Rightarrow> bytes \<Rightarrow> error + bytes" where
  "ecrecover c msgHash v r s =
     (let signature = setLength r 32 @ setLength s 32;
          recovery = v - 27
      in if recovery \<noteq> 0 \<and> recovery \<noteq> 1 then Inl InvalidSignature
         else (case secp_recover c msgHash signature (nat recovery) of
                 None \<Rightarrow> Inl InvalidSignature
               | Some senderPubKey \<Rightarrow> Inr senderPubKey))"

text \<open>\<open>ethUtil.ecsign(msgHash, privateKey)\<close>: the fields \<open>r\<close>, \<open>s\<close> and \<open>v\<close>, in this order.\<close>

definition ecsign :: "crypto \<Rightarrow> bytes \<Rightarrow> bytes \<Rightarrow> error + (bytes \<times> bytes \<times> nat)" where
  "ecsign c msgHash privateKey =
     (case secp_sign c msgHash privateKey of
        None \<Rightarrow> Inl SignFailure
      | Some (signature, recovery) \<Rightarrow>
          Inr (take 32 signature, take 32 (drop 32 signature), recovery + 27))"

text \<open>
  \<open>ethUtil.publicToAddress(pubKey)\<close>: asserts 64 bytes and keeps the last 20 bytes of the
  digest (\<open>slice(-20)\<close>).
\<close>

definition publicToAddress :: "crypto \<Rightarrow> bytes \<Rightarrow> error + bytes" where
  "publicToAddress c pubKey =
     (if length pubKey = 64
      then Inr (drop (length (keccak256 c pubKey) - 20) (keccak256 c pubKey))
      else Inl AssertionError)"

section \<open>The transaction record\<close>

subsection \<open>Field descriptors\<close>

record field =
  f_name :: string
  f_alias :: "string option"
  f_length :: "nat option"
  f_allowLess :: bool
  f_allowZero :: bool
  f_default :: bytes

definition mk_field :: "string \<Rightarrow> string option \<Rightarrow> nat option \<Rightarrow> bool \<Rightarrow> bool \<Rightarrow> bytes \<Rightarrow> field" where
  "mk_field n a l al az d =
     \<lparr>f_name = n, f_alias = a, f_length = l, f_allowLess = al, f_allowZero = az, f_default = d\<rparr>"

text \<open>
  The array \<open>fields\<close> of the constructor, lines 57 to 135 (the record package takes
  the name \<open>fields\<close> for its own use).
\<close>

definition field_list :: "field list" where
  "field_list =
     [mk_field ''nonce'' None (Some 32) True False [],
      mk_field ''gasPrice'' None (Some 32) True False [],
      mk_field ''gasLimit'' (Some ''gas'') (Some 32) True False [],
      mk_field ''to'' None (Some 20) False True [],
      mk_field ''value'' None (Some 32) True False [],
      mk_field ''data'' (Some ''input'') None False True [],
      mk_field ''action'' None (Some 2) True False [],
      mk_field ''vote'' None None False True [],
      mk_field ''nickname'' None None False True [],
      mk_field ''asset'' None (Some 20) False True [],
      mk_field ''assetInfo'' None None False True [],
      mk_field ''subAddress'' None None False True [],
      mk_field ''abi'' None None False True [],
      mk_field ''v'' None None False True [0x1b],
      mk_field ''r'' None (Some 32) True True [],
      mk_field ''s'' None (Some 32) True True []]"

text \<open>The decimal text of a number (\<open>String(i)\<close>, and \<open>toString\<close> of a \<open>BN\<close>).\<close>

fun show_nat :: "nat \<Rightarrow> string" where
  "show_nat n =
     (if n < 10 then [char_of (48 + n)] else show_nat (n div 10) @ [char_of (48 + n mod 10)])"

declare show_nat.simps [simp del]

text \<open>
  \<open>xs[key]\<close> on a JavaScript array, for a key that is neither \<open>'length'\<close> nor a name of
  \<open>Array.prototype\<close>: the element whose index prints as \<open>key\<close>, and \<open>undefined\<close>
  (\<open>None\<close>) when there is none.
\<close>

definition array_prop :: "'a list \<Rightarrow> string \<Rightarrow> 'a option" where
  "array_prop xs key =
     (case filter (\<lambda>i. show_nat i = key) [0..<length xs] of
        [] \<Rightarrow> None
      | i # _ \<Rightarrow> Some (xs ! i))"

subsection \<open>The object and its array of raw fields\<close>

text \<open>
  \<open>this.raw\<close> is a reference to an array of buffers, and \<open>hash\<close> relies on which array
  the reference points to while it writes \<open>v\<close>, \<open>r\<close> and \<open>s\<close>. So arrays live in a store:
  \<open>arrays\<close> maps an address to the array there, \<open>fresh\<close> is the next free address and
  \<open>raw\<close> the address held by \<open>this.raw\<close>. The other components are the properties
  \<open>_chainId\<close>, \<open>_homestead\<close>, \<open>_subAddress\<close>, \<open>_senderPubKey\<close> and \<open>_from\<close>;
  \<open>None\<close> is \<open>undefined\<close>.
\<close>

record tx =
  arrays :: "nat \<Rightarrow> bytes list"
  fresh :: nat
  raw :: nat
  p_chainId :: int
  p_homestead :: bool
  p_subAddress :: "field option"
  p_senderPubKey :: "bytes option"
  p_from :: "bytes option"

definition this_raw :: "tx \<Rightarrow> bytes list" where
  "this_raw t = arrays t (raw t)"

text \<open>The getters of \<open>defineProperties\<close>: \<open>self.raw[i]\<close>.\<close>

abbreviation tx_nonce :: "tx \<Rightarrow> bytes" where "tx_nonce t \<equiv> this_raw t ! 0"
abbreviation tx_gasPrice :: "tx \<Rightarrow> bytes" where "tx_gasPrice t \<equiv> this_raw t ! 1"
abbreviation tx_gasLimit :: "tx \<Rightarrow> bytes" where "tx_gasLimit t \<equiv> this_raw t ! 2"
abbreviation tx_to :: "tx \<Rightarrow> bytes" where "tx_to t \<equiv> this_raw t ! 3"
abbreviation tx_value :: "tx \<Rightarrow> bytes" where "tx_value t \<equiv> this_raw t ! 4"
abbreviation tx_data :: "tx \<Rightarrow> bytes" where "tx_data t \<equiv> this_raw t ! 5"
abbreviation tx_action :: "tx \<Rightarrow> bytes" where "tx_action t \<equiv> this_raw t ! 6"
abbreviation tx_vote :: "tx \<Rightarrow> bytes" where "tx_vote t \<equiv> this_raw t ! 7"
abbreviation tx_nickname :: "tx \<Rightarrow> bytes" where "tx_nickname t \<equiv> this_raw t ! 8"
abbreviation tx_asset :: "tx \<Rightarrow> bytes" where "tx_asset t \<equiv> this_raw t ! 9"
abbreviation tx_assetInfo :: "tx \<Rightarrow> bytes" where "tx_assetInfo t \<equiv> this_raw t ! 10"
abbreviation tx_subAddress :: "tx \<Rightarrow> bytes" where "tx_subAddress t \<equiv> this_raw t ! 11"
abbreviation tx_abi :: "tx \<Rightarrow> bytes" where "tx_abi t \<equiv> this_raw t ! 12"
abbreviation tx_v :: "tx \<Rightarrow> bytes" where "tx_v t \<equiv> this_raw t ! 13"
abbreviation tx_r :: "tx \<Rightarrow> bytes" where "tx_r t \<equiv> this_raw t ! 14"
abbreviation tx_s :: "tx \<Rightarrow> bytes" where "tx_s t \<equiv> this_raw t ! 15"

text \<open>
  The \<open>toBuffer\<close> of ethereumjs-util 5: a number goes through \<open>intToBuffer\<close> (0 is one
  zero byte here), a hexadecimal text is decoded and any other text is taken as UTF-8.
\<close>

fun toBuffer :: "jsval \<Rightarrow> error + bytes" where
  "toBuffer (Buf b) = Inr b"
| "toBuffer (Str s) =
     (if isHexString s then Inr (hex_decode (padToEven (substring2 s))) else Inr (utf8 s))"
| "toBuffer (Num n) = Inr (intToBuffer n)"
| "toBuffer Undefined = Inr []"
| "toBuffer Obj = Inl InvalidType"

text \<open>
  The body of \<open>setter\<close> in \<open>defineProperties\<close> up to the store: the buffer that is
  written for a value, or the assertion that fails. \<open>field.length\<close> is tested for truth,
  so a length of 0 counts as none.
\<close>

definition canonical :: "field \<Rightarrow> jsval \<Rightarrow> error + bytes" where
  "canonical fld v =
     (case toBuffer v of
        Inl e \<Rightarrow> Inl e
      | Inr b0 \<Rightarrow>
          let b = (if b0 = [0] \<and> \<not> f_allowZero fld then [] else b0);
              has_length = (case f_length fld of None \<Rightarrow> False | Some n \<Rightarrow> n \<noteq> 0);
              n = (case f_length fld of None \<Rightarrow> 0 | Some n \<Rightarrow> n)
          in if f_allowLess fld \<and> has_length then
               (if length (stripZeros b) \<le> n then Inr (stripZeros b) else Inl AssertionError)
             else if \<not> (f_allowZero fld \<and> length b = 0) \<and> has_length then
               (if n = length b then Inr b else Inl AssertionError)
             else Inr b)"

text \<open>
  \<open>xs[i] = v\<close> on a JavaScript array: past the end the array grows; the holes it would
  leave (written as empty buffers here) do not arise, since the constructor fills the
  sixteen indices in order.
\<close>

definition array_store :: "bytes list \<Rightarrow> nat \<Rightarrow> bytes \<Rightarrow> bytes list" where
  "array_store xs i v =
     (if i < length xs then xs[i := v] else xs @ replicate (i - length xs) [] @ [v])"

text \<open>The setter of field \<open>i\<close>: \<open>self.raw[i] = v\<close> after the checks; a throw leaves the object as it was.\<close>

definition setter :: "nat \<Rightarrow> jsval \<Rightarrow> tx \<Rightarrow> error + tx" where
  "setter i v t =
     (case canonical (field_list ! i) v of
        Inl e \<Rightarrow> Inl e
      | Inr b \<Rightarrow> Inr (t\<lparr>arrays := (arrays t)(raw t := array_store (this_raw t) i b)\<rparr>))"

abbreviation set_v :: "jsval \<Rightarrow> tx \<Rightarrow> error + tx" where "set_v \<equiv> setter 13"
abbreviation set_r :: "jsval \<Rightarrow> tx \<Rightarrow> error + tx" where "set_r \<equiv> setter 14"
abbreviation set_s :: "jsval \<Rightarrow> tx \<Rightarrow> error + tx" where "set_s \<equiv> setter 15"

text \<open>A run of assignments \<open>self[name] = value\<close>, ended by the first one that throws.\<close>

fun assign_all :: "(nat \<times> jsval) list \<Rightarrow> tx \<Rightarrow> error + tx" where
  "assign_all [] t = Inr t"
| "assign_all ((i, v) # rest) t =
     (case setter i v t of Inl e \<Rightarrow> Inl e | Inr t' \<Rightarrow> assign_all rest t')"

subsection \<open>The constructor\<close>

text \<open>
  The argument \<open>data\<close> of the constructor in its object form: the properties that name
  a field or an alias, and the property \<open>chainId\<close>, a number when present.
\<close>

record txdata =
  d_props :: "string \<rightharpoonup> jsval"
  d_chainId :: "int option"

text \<open>The assignments of the defaults: \<open>if (field.default) self[field.name] = field.default\<close>.\<close>

definition default_assignments :: "(nat \<times> jsval) list" where
  "default_assignments = map (\<lambda>i. (i, Buf (f_default (field_list ! i)))) [0..<length field_list]"

text \<open>
  The assignments from \<open>data\<close>: for each field in order, its name when \<open>data\<close> has that
  key, then its alias.
\<close>

definition data_assignments :: "(string \<rightharpoonup> jsval) \<Rightarrow> (nat \<times> jsval) list" where
  "data_assignments props =
     concat (map (\<lambda>i.
        (case props (f_name (field_list ! i)) of None \<Rightarrow> [] | Some v \<Rightarrow> [(i, v)]) @
        (case f_alias (field_list ! i) of
           None \<Rightarrow> []
         | Some a \<Rightarrow> (case props a of None \<Rightarrow> [] | Some v \<Rightarrow> [(i, v)])))
       [0..<length field_list])"

text \<open>The object before the constructor has assigned anything: \<open>self.raw = []\<close>.\<close>

definition blank :: tx where
  "blank = \<lparr>arrays = (\<lambda>_. []), fresh = 1, raw = 0, p_chainId = 0, p_homestead = False,
            p_subAddress = None, p_senderPubKey = None, p_from = None\<rparr>"

definition defineProperties :: "(string \<rightharpoonup> jsval) \<Rightarrow> error + tx" where
  "defineProperties props =
     (case assign_all default_assignments blank of
        Inl e \<Rightarrow> Inl e
      | Inr t \<Rightarrow> assign_all (data_assignments props) t)"

text \<open>
  \<open>new Transaction(data)\<close>, lines 54 to 168. \<open>Math.floor((sigV - 35) / 2)\<close> is the
  flooring division of \<open>int\<close>; \<open>chainId || data.chainId || 0\<close> takes the first of the
  three that is not 0 or absent.
\<close>

definition Transaction :: "txdata \<Rightarrow> error + tx" where
  "Transaction data =
     (case defineProperties (d_props data) of
        Inl e \<Rightarrow> Inl e
      | Inr t \<Rightarrow>
          (case bufferToInt (tx_v t) of
             Inl e \<Rightarrow> Inl e
           | Inr sigV \<Rightarrow>
               let chainId0 = (int sigV - 35) div 2;
                   chainId = (if chainId0 < 0 then 0 else chainId0)
               in Inr (t\<lparr>p_chainId :=
                            (if chainId \<noteq> 0 then chainId
                             else (case d_chainId data of
                                     None \<Rightarrow> 0
                                   | Some d \<Rightarrow> if d \<noteq> 0 then d else 0)),
                          p_homestead := True,
                          p_subAddress := array_prop field_list ''subAddress''\<rparr>)))"

subsection \<open>Hashing\<close>

text \<open>\<open>toCreationAddress\<close>, lines 174 to 176: the hexadecimal text of \<open>to\<close> is empty.\<close>

definition toCreationAddress :: "tx \<Rightarrow> bool" where
  "toCreationAddress t = (concat (map hex_byte (tx_to t)) = [])"

text \<open>\<open>this.raw.slice()\<close>: a copy of the array at a fresh address.\<close>

definition slice_raw :: "tx \<Rightarrow> nat \<times> tx" where
  "slice_raw t = (fresh t, t\<lparr>arrays := (arrays t)(fresh t := this_raw t), fresh := Suc (fresh t)\<rparr>)"

text \<open>
  \<open>hash(includeSignature, chainID)\<close>, lines 183 to 205: the array \<open>items\<close> that is
  hashed. \<open>None\<close> is an argument left out. The result comes with the object as the
  call leaves it, also when a setter throws. In the branch for a positive chain id,
  \<open>items\<close> is the address of the array that the three setters have written to, and
  \<open>this.raw = raw\<close> points the object back to the copy taken before.
\<close>

definition hash_items :: "bool option \<Rightarrow> nat option \<Rightarrow> tx \<Rightarrow> (error + bytes list) \<times> tx" where
  "hash_items includeSignature chainID t =
     (let inc = (case includeSignature of None \<Rightarrow> True | Some b \<Rightarrow> b) in
      case (case chainID of
              None \<Rightarrow> Inr t
            | Some n \<Rightarrow> if inc \<and> n \<noteq> 0 then set_v (Num n) t else Inr t) of
        Inl e \<Rightarrow> (Inl e, t)
      | Inr t1 \<Rightarrow>
          if inc then (Inr (this_raw t1), t1)
          else if 0 < p_chainId t1 then
            (case slice_raw t1 of
               (raw0, t2) \<Rightarrow>
                 (case set_v (Num (nat (p_chainId t2))) t2 of
                    Inl e \<Rightarrow> (Inl e, t2)
                  | Inr t3 \<Rightarrow>
                      (case set_r (Num 0) t3 of
                         Inl e \<Rightarrow> (Inl e, t3)
                       | Inr t4 \<Rightarrow>
                           (case set_s (Num 0) t4 of
                              Inl e \<Rightarrow> (Inl e, t4)
                            | Inr t5 \<Rightarrow>
                                let items = raw t5;
                                    t6 = t5\<lparr>raw := raw0\<rparr>
                                in (Inr (arrays t6 items), t6)))))
          else (Inr (take 6 (this_raw t1)), t1))"

text \<open>\<open>hash\<close>, line 208: \<open>return ethUtil.rlphash(items)\<close>.\<close>

definition hash :: "crypto \<Rightarrow> bool option \<Rightarrow> nat option \<Rightarrow> tx \<Rightarrow> (error + bytes) \<times> tx" where
  "hash c includeSignature chainID t =
     (case hash_items includeSignature chainID t of
        (Inl e, t1) \<Rightarrow> (Inl e, t1)
      | (Inr items, t1) \<Rightarrow> (rlphash c (map Buf items), t1))"

text \<open>\<open>getChainId\<close>, lines 215 to 217.\<close>

definition getChainId :: "tx \<Rightarrow> int" where
  "getChainId t = p_chainId t"

subsection \<open>Signature verification and the sender\<close>

text \<open>\<open>N_DIV_2\<close>, line 7, and the order of the curve it is named after.\<close>

definition N_DIV_2 :: nat where
  "N_DIV_2 = 0x7fffffffffffffffffffffffffffffff5d576e7357a4501ddfe92f46681b20a0"

definition secp256k1n :: nat where
  "secp256k1n = 0xFFFFFFFFFFFFFFFFFFFFFFFFFFFFFFFEBAAEDCE6AF48A03BBFD25E8CD0364141"

text \<open>
  The array \<open>items\<close> of \<open>verifySignature\<close>, lines 249 to 266, read after
  \<open>this._chainId = 1\<close>. The seventh entry is the number 0 and the twelfth is
  \<open>this._subAddress\<close>: \<open>undefined\<close>, or the descriptor object it holds.
\<close>

definition verify_items :: "tx \<Rightarrow> jsval list" where
  "verify_items t =
     [Buf (tx_nonce t), Buf (tx_gasPrice t), Buf (tx_gasLimit t), Buf (tx_to t),
      Buf (tx_value t), Buf (tx_data t), Num 0, Buf (tx_vote t), Buf (tx_nickname t),
      Buf (tx_asset t), Buf (tx_assetInfo t),
      (case p_subAddress t of None \<Rightarrow> Undefined | Some d \<Rightarrow> Obj),
      Buf (tx_abi t), Num (nat (p_chainId t)), Num 0, Num 0]"

text \<open>
  \<open>verifySignature\<close>, lines 247 to 286. \<open>rlphash\<close> stands before the \<open>try\<close>, so its
  throw leaves the method; a throw of \<open>bufferToInt\<close> or \<open>ecrecover\<close> is caught and
  gives \<open>false\<close>. A recovered key is a \<open>Buffer\<close>, so \<open>!!this._senderPubKey\<close> is \<open>true\<close>.
\<close>

definition verifySignature :: "crypto \<Rightarrow> tx \<Rightarrow> (error + bool) \<times> tx" where
  "verifySignature c t =
     (let t1 = t\<lparr>p_chainId := 1\<rparr> in
      case rlphash c (verify_items t1) of
        Inl e \<Rightarrow> (Inl e, t1)
      | Inr msgHash \<Rightarrow>
          if p_homestead t1 \<and> N_DIV_2 < bn (tx_s t1) then (Inr False, t1)
          else
            (case bufferToInt (tx_v t1) of
               Inl e \<Rightarrow> (Inr False, t1)
             | Inr sigV \<Rightarrow>
                 let v = (if 0 < p_chainId t1 then int sigV - (p_chainId t1 * 2 + 8)
                          else int sigV)
                 in (case ecrecover c msgHash v (tx_r t1) (tx_s t1) of
                       Inl e \<Rightarrow> (Inr False, t1)
                     | Inr senderPubKey \<Rightarrow>
                         (Inr True, t1\<lparr>p_senderPubKey := Some senderPubKey\<rparr>))))"

text \<open>
  \<open>getSenderPublicKey\<close>, lines 236 to 241: verifies when no key of positive length is
  cached, and returns \<open>this._senderPubKey\<close> (\<open>None\<close> when it is \<open>undefined\<close>).
\<close>

definition getSenderPublicKey :: "crypto \<Rightarrow> tx \<Rightarrow> (error + bytes option) \<times> tx" where
  "getSenderPublicKey c t =
     (if p_senderPubKey t = None \<or> p_senderPubKey t = Some [] then
        (case verifySignature c t of
           (Inl e, t1) \<Rightarrow> (Inl e, t1)
         | (Inr ok, t1) \<Rightarrow>
             if \<not> ok then (Inl InvalidSignature, t1) else (Inr (p_senderPubKey t1), t1))
      else (Inr (p_senderPubKey t), t))"

text \<open>
  \<open>getSenderAddress\<close>, lines 223 to 230, also the getter of \<open>from\<close>. \<open>publicToAddress\<close>
  takes \<open>undefined\<close> for the empty buffer.
\<close>

definition getSenderAddress :: "crypto \<Rightarrow> tx \<Rightarrow> (error + bytes) \<times> tx" where
  "getSenderAddress c t =
     (case p_from t of
        Some a \<Rightarrow> (Inr a, t)
      | None \<Rightarrow>
          (case getSenderPublicKey c t of
             (Inl e, t1) \<Rightarrow> (Inl e, t1)
           | (Inr pubkey, t1) \<Rightarrow>
               (case publicToAddress c (case pubkey of None \<Rightarrow> [] | Some k \<Rightarrow> k) of
                  Inl e \<Rightarrow> (Inl e, t1)
                | Inr a \<Rightarrow> (Inr a, t1\<lparr>p_from := Some a\<rparr>))))"

text \<open>
  \<open>sign(privateKey, chainID)\<close>, lines 292 to 300. \<open>Object.assign(this, sig)\<close> runs the
  setters of \<open>r\<close>, \<open>s\<close> and \<open>v\<close> in the order \<open>ecsign\<close> created them.
\<close>

definition sign :: "crypto \<Rightarrow> bytes \<Rightarrow> nat option \<Rightarrow> tx \<Rightarrow> (error + unit) \<times> tx" where
  "sign c privateKey chainID t =
     (case hash c (Some True) chainID t of
        (Inl e, t1) \<Rightarrow> (Inl e, t1)
      | (Inr msgHash, t1) \<Rightarrow>
          (case ecsign c msgHash privateKey of
             Inl e \<Rightarrow> (Inl e, t1)
           | Inr (r, s, v0) \<Rightarrow>
               let v = (case chainID of
                          None \<Rightarrow> v0
                        | Some n \<Rightarrow> if 0 < n then v0 + (n * 2 + 8) else v0)
               in (case set_r (Buf r) t1 of
                     Inl e \<Rightarrow> (Inl e, t1)
                   | Inr t2 \<Rightarrow>
                       (case set_s (Buf s) t2 of
                          Inl e \<Rightarrow> (Inl e, t2)
                        | Inr t3 \<Rightarrow>
                            (case set_v (Num v) t3 of
                               Inl e \<Rightarrow> (Inl e, t3)
                             | Inr t4 \<Rightarrow> (Inr (), t4))))))"

subsection \<open>Fees and validation\<close>

text \<open>
  The entries of \<open>ethereum-common/params.json\<close> that the code reads, a file outside this
  repository: a parameter of the model.
\<close>

record fees =
  txGas :: nat
  txCreation :: nat
  txDataZeroGas :: nat
  txDataNonZeroGas :: nat

text \<open>\<open>getDataFee\<close>, lines 306 to 313.\<close>

definition getDataFee :: "fees \<Rightarrow> tx \<Rightarrow> nat" where
  "getDataFee f t =
     foldl (\<lambda>cost b. if b = 0 then cost + txDataZeroGas f else cost + txDataNonZeroGas f)
       0 (tx_data t)"

text \<open>\<open>getBaseFee\<close>, lines 319 to 325.\<close>

definition getBaseFee :: "fees \<Rightarrow> tx \<Rightarrow> nat" where
  "getBaseFee f t =
     (let fee = getDataFee f t + txGas f
      in if p_homestead t \<and> toCreationAddress t then fee + txCreation f else fee)"

text \<open>\<open>getUpfrontCost\<close>, lines 331 to 335.\<close>

definition getUpfrontCost :: "tx \<Rightarrow> nat" where
  "getUpfrontCost t = bn (tx_gasLimit t) * bn (tx_gasPrice t) + bn (tx_value t)"

text \<open>\<open>errors.join(' ')\<close>.\<close>

fun join :: "string list \<Rightarrow> string" where
  "join [] = []"
| "join [x] = x"
| "join (x # y # ys) = x @ '' '' @ join (y # ys)"

datatype vresult = VBool bool | VStr string

text \<open>
  \<open>validate(stringError)\<close>, lines 343 to 358; \<open>None\<close> is the argument left out. The
  second message is pushed as a one-element array, which \<open>join\<close> prints as its element.
\<close>

definition validate :: "crypto \<Rightarrow> fees \<Rightarrow> bool option \<Rightarrow> tx \<Rightarrow> (error + vresult) \<times> tx" where
  "validate c f stringError t =
     (case verifySignature c t of
        (Inl e, t1) \<Rightarrow> (Inl e, t1)
      | (Inr ok, t1) \<Rightarrow>
          let errors1 = (if \<not> ok then [''Invalid Signature''] else []);
              errors2 =
                (if bn (tx_gasLimit t1) < getBaseFee f t1
                 then errors1 @ [''gas limit is too low. Need at least '' @ show_nat (getBaseFee f t1)]
                 else errors1)
          in if stringError = None \<or> stringError = Some False
             then (Inr (VBool (length errors2 = 0)), t1)
             else (Inr (VStr (join errors2)), t1))"

section \<open>Decoding a serialized transaction\<close>

subsection \<open>The helpers of lines 364 to 394\<close>

text \<open>\<open>AOAtoHex\<close> and \<open>HexToAOA\<close>: \<open>replace\<close> with a pattern anchored at the start.\<close>

definition AOAtoHex :: "string \<Rightarrow> string" where
  "AOAtoHex address = (if take 3 address = ''AOA'' then ''0x'' @ drop 3 address else address)"

definition HexToAOA :: "string \<Rightarrow> string" where
  "HexToAOA address = (if take 2 address = ''0x'' then ''AOA'' @ drop 2 address else address)"

text \<open>
  \<open>String.fromCharCode("0x" + a + b)\<close>: the text is converted to a number first, and a
  text that is not a hexadecimal numeral is \<open>NaN\<close>, which gives the character 0.
\<close>

definition fromCharCode :: "char \<Rightarrow> char \<Rightarrow> char" where
  "fromCharCode a b =
     (case (hexval a, hexval b) of
        (Some x, Some y) \<Rightarrow> char_of (16 * x + y)
      | _ \<Rightarrow> char_of (0 :: nat))"

text \<open>
  \<open>hexToString\<close>, lines 385 to 394: one character for every two of the text, the prefix
  \<open>0x\<close> included (so the result of a prefixed text starts with the character 0). For a
  text of odd length the last step reads \<open>undefined\<close> and gives the character 0.
\<close>

fun hexToString :: "string \<Rightarrow> string" where
  "hexToString (a # b # cs) = fromCharCode a b # hexToString cs"
| "hexToString [a] = [char_of (0 :: nat)]"
| "hexToString [] = []"

text \<open>\<open>s.indexOf(pat)\<close>, \<open>None\<close> for -1.\<close>

fun indexOf :: "string \<Rightarrow> string \<Rightarrow> nat option" where
  "indexOf pat [] = (if pat = [] then Some 0 else None)"
| "indexOf pat (x # xs) =
     (if take (length pat) (x # xs) = pat then Some 0
      else map_option Suc (indexOf pat xs))"

text \<open>\<open>s.substring(idx, s.length)\<close>, where a negative \<open>idx\<close> counts as 0.\<close>

definition substring_from :: "nat option \<Rightarrow> string \<Rightarrow> string" where
  "substring_from idx s = (case idx of None \<Rightarrow> s | Some i \<Rightarrow> drop i s)"

subsection \<open>\<open>RLP.decode\<close> of ethers\<close>

datatype rlpv = RStr string | RList "rlpv list"

text \<open>\<open>unarrayifyInteger(data, offset, length)\<close>.\<close>

definition unarrayifyInteger :: "bytes \<Rightarrow> nat \<Rightarrow> nat \<Rightarrow> nat" where
  "unarrayifyInteger data offset len = bn (take len (drop offset data))"

text \<open>
  The head of an item in \<open>_decode(data, offset)\<close>: the four length checks and what they
  lead to. The result says whether the item is an array, where its payload starts, how
  long the payload is and how many bytes the item consumes. A single byte below \<open>0x80\<close>
  is its own payload. Reading \<open>data[offset]\<close> past the end gives \<open>undefined\<close>, which
  \<open>hexlify\<close> refuses.
\<close>

definition decode_head :: "bytes \<Rightarrow> nat \<Rightarrow> error + (bool \<times> nat \<times> nat \<times> nat)" where
  "decode_head data offset =
     (if length data \<le> offset then Inl InvalidRlp
      else
        let b = unat (data ! offset) in
        if 0xf8 \<le> b then
          (let lengthLength = b - 0xf7 in
           if length data < offset + 1 + lengthLength then Inl InvalidRlp
           else
             let len = unarrayifyInteger data (offset + 1) lengthLength in
             if length data < offset + 1 + lengthLength + len then Inl InvalidRlp
             else Inr (True, offset + 1 + lengthLength, len, 1 + (lengthLength + len)))
        else if 0xc0 \<le> b then
          (let len = b - 0xc0 in
           if length data < offset + 1 + len then Inl InvalidRlp
           else Inr (True, offset + 1, len, 1 + len))
        else if 0xb8 \<le> b then
          (let lengthLength = b - 0xb7 in
           if length data < offset + 1 + lengthLength then Inl InvalidRlp
           else
             let len = unarrayifyInteger data (offset + 1) lengthLength in
             if length data < offset + 1 + lengthLength + len then Inl InvalidRlp
             else Inr (False, offset + 1 + lengthLength, len, 1 + lengthLength + len))
        else if 0x80 \<le> b then
          (let len = b - 0x80 in
           if length data < offset + 1 + len then Inl InvalidRlp
           else Inr (False, offset + 1, len, 1 + len))
        else Inr (False, offset, 1, 1))"

text \<open>
  \<open>_decode(data, offset)\<close> with its result and the bytes consumed, and the loop of
  \<open>_decodeChildren\<close> from \<open>childOffset\<close> up to the offset \<open>stop\<close> (\<open>offset + 1 + length\<close>
  there). The first argument bounds the depth of the calls; \<open>Unmodelled\<close> is the value
  when it runs out.
\<close>

fun decode_at :: "nat \<Rightarrow> bytes \<Rightarrow> nat \<Rightarrow> error + (rlpv \<times> nat)"
  and decodeChildren :: "nat \<Rightarrow> bytes \<Rightarrow> nat \<Rightarrow> nat \<Rightarrow> error + rlpv list"
where
  "decode_at 0 data offset = Inl Unmodelled"
| "decode_at (Suc k) data offset =
     (case decode_head data offset of
        Inl e \<Rightarrow> Inl e
      | Inr (is_array, start, len, consumed) \<Rightarrow>
          if is_array then
            (case decodeChildren k data (start + len) start of
               Inl e \<Rightarrow> Inl e
             | Inr rs \<Rightarrow> Inr (RList rs, consumed))
          else Inr (RStr (hexlify (take len (drop start data))), consumed))"
| "decodeChildren 0 data stop childOffset = Inl Unmodelled"
| "decodeChildren (Suc k) data stop childOffset =
     (if childOffset < stop then
        (case decode_at k data childOffset of
           Inl e \<Rightarrow> Inl e
         | Inr (r, consumed) \<Rightarrow>
             if stop < childOffset + consumed then Inl InvalidRlp
             else
               (case decodeChildren k data stop (childOffset + consumed) of
                  Inl e \<Rightarrow> Inl e
                | Inr rs \<Rightarrow> Inr (r # rs)))
      else Inr [])"

text \<open>
  \<open>RLP.decode(data)\<close>: the whole input must be consumed. Every call consumes a byte or
  ends a list, so twice the length of the input bounds the depth.
\<close>

definition RLP_decode :: "bytes \<Rightarrow> error + rlpv" where
  "RLP_decode data =
     (case decode_at (2 * length data + 2) data 0 of
        Inl e \<Rightarrow> Inl e
      | Inr (r, consumed) \<Rightarrow> if consumed \<noteq> length data then Inl InvalidRlp else Inr r)"

subsection \<open>\<open>decodeTx\<close>\<close>

text \<open>The object \<open>transaction\<close> that \<open>decodeTx\<close> returns; \<open>o_to = None\<close> once \<open>to\<close> is deleted.\<close>

record decoded =
  o_from :: string
  o_nonce :: nat
  o_gasPrice :: nat
  o_gasLimit :: nat
  o_to :: "string option"
  o_value :: nat
  o_data :: rlpv
  o_v :: nat
  o_r :: string
  o_s :: string
  o_action :: string
  o_asset :: rlpv
  o_subAddress :: string

text \<open>
  An element of the decoded array used as a text (\<open>substring\<close>, \<open>split\<close>,
  \<open>bigNumberify\<close>): a missing element or a nested array throws.
\<close>

definition as_text :: "rlpv list \<Rightarrow> nat \<Rightarrow> error + string" where
  "as_text xs i =
     (if i < length xs then (case xs ! i of RStr s \<Rightarrow> Inr s | RList _ \<Rightarrow> Inl TypeError)
      else Inl TypeError)"

text \<open>\<open>Buffer.from(s.substring(2), 'hex')\<close>.\<close>

definition from_hex :: "string \<Rightarrow> bytes" where
  "from_hex s = hex_decode (substring2 s)"

text \<open>Lines 419 to 425: the text \<open>subAddress\<close> and the value \<open>sub\<close> that is hashed.\<close>

definition decode_subAddress :: "string \<Rightarrow> string" where
  "decode_subAddress raw_subAddress =
     (let subAddress = hexToString raw_subAddress
      in substring_from (indexOf ''AOA'' subAddress) subAddress)"

definition decode_sub :: "string \<Rightarrow> string" where
  "decode_sub subAddress = (if subAddress = [char_of (0 :: nat)] then ''0x'' else subAddress)"

text \<open>The array \<open>items\<close> of \<open>decodeTx\<close>, lines 426 to 443, with \<open>chainId = 1\<close>.\<close>

definition decode_items :: "string \<Rightarrow> string \<Rightarrow> string \<Rightarrow> string \<Rightarrow> string \<Rightarrow> string \<Rightarrow> string \<Rightarrow> jsval list" where
  "decode_items raw_nonce raw_gasPrice raw_gasLimit raw_to raw_value raw_action sub =
     [Buf (from_hex raw_nonce), Buf (from_hex raw_gasPrice), Buf (from_hex raw_gasLimit),
      Buf (from_hex raw_to), Buf (from_hex raw_value), Buf [], Buf (from_hex raw_action),
      Buf [], Buf [], Buf [], Buf [], Str sub, Buf [], Num 1, Num 0, Num 0]"

text \<open>Sequencing: a throw of the first step ends the function.\<close>

definition and_then :: "error + 'a \<Rightarrow> ('a \<Rightarrow> error + 'b) \<Rightarrow> error + 'b" where
  "and_then r f = (case r of Inl e \<Rightarrow> Inl e | Inr x \<Rightarrow> f x)"

text \<open>Lines 454 to 470: the object literal, and the deletion of \<open>to\<close>.\<close>

definition finish_transaction :: "decoded \<Rightarrow> decoded" where
  "finish_transaction transaction =
     (if o_to transaction = Some ''0x'' then transaction\<lparr>o_to := None\<rparr> else transaction)"

text \<open>
  \<open>decodeTx\<close> from line 417 on, for the array that \<open>RLP.decode\<close> returned. The steps
  keep the order of the source, so the first throw is the one reported.
\<close>

definition decodeTx_fields :: "crypto \<Rightarrow> rlpv list \<Rightarrow> error + decoded" where
  "decodeTx_fields c xs =
     and_then (as_text xs 11) (\<lambda>raw_subAddress.
     and_then (as_text xs 0) (\<lambda>raw_nonce.
     and_then (as_text xs 1) (\<lambda>raw_gasPrice.
     and_then (as_text xs 2) (\<lambda>raw_gasLimit.
     and_then (as_text xs 3) (\<lambda>raw_to.
     and_then (as_text xs 4) (\<lambda>raw_value.
     and_then (as_text xs 6) (\<lambda>raw_action.
     and_then (rlphash c (decode_items raw_nonce raw_gasPrice raw_gasLimit raw_to raw_value
                            raw_action (decode_sub (decode_subAddress raw_subAddress))))
       (\<lambda>msgHash.
     and_then (as_text xs 13) (\<lambda>raw_v.
     and_then (bigNumberify raw_v) (\<lambda>big_v.
     and_then (toNumber big_v) (\<lambda>v.
     and_then (as_text xs 14) (\<lambda>raw_r.
     and_then (as_text xs 15) (\<lambda>raw_s.
     and_then (ecrecover c msgHash (int v - (1 * 2 + 8)) (from_hex raw_r) (from_hex raw_s))
       (\<lambda>senderPubKey.
     and_then (publicToAddress c senderPubKey) (\<lambda>from_bytes.
     and_then (bigNumberify raw_nonce) (\<lambda>big_nonce.
     and_then (toNumber big_nonce) (\<lambda>nonce.
     and_then (bigNumberify raw_gasPrice) (\<lambda>gasPrice.
     and_then (bigNumberify raw_gasLimit) (\<lambda>gasLimit.
     and_then (bigNumberify raw_value) (\<lambda>val.
     Inr (finish_transaction
            \<lparr>o_from = HexToAOA (hexlify from_bytes), o_nonce = nonce, o_gasPrice = gasPrice,
             o_gasLimit = gasLimit, o_to = Some (HexToAOA raw_to), o_value = val,
             o_data = xs ! 5, o_v = v, o_r = raw_r, o_s = raw_s, o_action = raw_action,
             o_asset = xs ! 9,
             o_subAddress = decode_subAddress raw_subAddress\<rparr>)))))))))))))))))))))"

text \<open>
  \<open>decodeTx(raw_tx)\<close>, lines 397 to 472, for an input that encodes a list. An input
  that encodes a single text makes the destructuring run over its characters; that case
  is outside the modelled domain.
\<close>

definition decodeTx :: "crypto \<Rightarrow> bytes \<Rightarrow> error + decoded" where
  "decodeTx c raw_tx =
     (case RLP_decode raw_tx of
        Inl e \<Rightarrow> Inl e
      | Inr (RStr s) \<Rightarrow> Inl Unmodelled
      | Inr (RList xs) \<Rightarrow> decodeTx_fields c xs)"

text \<open>\<open>serialize\<close> of \<open>defineProperties\<close>: \<open>rlp.encode(self.raw)\<close>.\<close>

definition serialize :: "tx \<Rightarrow> error + bytes" where
  "serialize t = rlp_encode (map Buf (this_raw t))"

section \<open>An instance to run the model on\<close>

text \<open>
  The primitives are parameters, so a concrete run needs an instance of them. The one
  below is not Keccak or secp256k1. It has the shape of the interface (32-byte digests,
  64-byte signatures and public keys, recovery id 0) and the one property of a signature
  scheme that the transaction code relies on: recovering from a signature just produced
  gives the signer's public key. It serves the concrete examples only; every general
  theorem holds for all primitives.
\<close>

definition demo_keccak :: "bytes \<Rightarrow> bytes" where
  "demo_keccak b = setLength (be_bytes (foldl (\<lambda>a x. (31 * a + unat x + 1) mod 2 ^ 64) 7 b)) 32"

definition xor_bytes :: "bytes \<Rightarrow> bytes \<Rightarrow> bytes" where
  "xor_bytes a b = map (\<lambda>(x, y). xor x y) (zip a b)"

definition demo_crypto :: crypto where
  "demo_crypto =
     \<lparr>keccak256 = demo_keccak,
      secp_recover = (\<lambda>msgHash signature recovery.
         if recovery \<le> 1 \<and> length signature = 64
         then Some (xor_bytes (setLength msgHash 32) (take 32 signature) @
                    xor_bytes (setLength msgHash 32) (take 32 signature))
         else None),
      secp_sign = (\<lambda>msgHash privateKey.
         Some (xor_bytes (setLength msgHash 32) (setLength privateKey 32) @ setLength [1] 32, 0)),
      secp_public = (\<lambda>privateKey. setLength privateKey 32 @ setLength privateKey 32)\<rparr>"

text \<open>The fee table of \<open>ethereum-common\<close> as the examples use it.\<close>

definition demo_fees :: fees where
  "demo_fees = \<lparr>txGas = 21000, txCreation = 32000, txDataZeroGas = 4, txDataNonZeroGas = 68\<rparr>"

section \<open>Notions for stating the results\<close>

text \<open>
  What the constructor establishes and every method keeps: the array of raw fields has
  its sixteen entries, the address in \<open>this.raw\<close> is below the next free one,
  \<open>_homestead\<close> is \<open>true\<close> and \<open>_subAddress\<close> is \<open>undefined\<close>.
\<close>

definition tx_inv :: "tx \<Rightarrow> bool" where
  "tx_inv t = (length (this_raw t) = 16 \<and> raw t < fresh t \<and> p_homestead t \<and> p_subAddress t = None)"

text \<open>Two states that differ in the store of arrays at most.\<close>

definition same_frame :: "tx \<Rightarrow> tx \<Rightarrow> bool" where
  "same_frame t t' = (raw t' = raw t \<and> fresh t' = fresh t \<and> p_chainId t' = p_chainId t \<and>
     p_homestead t' = p_homestead t \<and> p_subAddress t' = p_subAddress t \<and>
     p_senderPubKey t' = p_senderPubKey t \<and> p_from t' = p_from t)"

text \<open>The raw fields once the constructor has assigned the defaults.\<close>

definition default_raw :: "bytes list" where
  "default_raw = [[], [], [], [], [], [], [], [], [], [], [], [], [], [0x1b], [], []]"

text \<open>
  The object as the constructor leaves it, with raw fields \<open>xs\<close> and chain id \<open>cid\<close>.
\<close>

definition mk_tx :: "bytes list \<Rightarrow> int \<Rightarrow> tx" where
  "mk_tx xs cid = \<lparr>arrays = (\<lambda>_. [])(0 := xs), fresh = 1, raw = 0, p_chainId = cid,
     p_homestead = True, p_subAddress = None, p_senderPubKey = None, p_from = None\<rparr>"

text \<open>
  An example: a transfer to an address with two bytes of data, built from an object
  that also names the chain id. Its \<open>v\<close> is the default 27, so the chain id comes from
  \<open>data.chainId\<close>.
\<close>

definition ex_to :: bytes where
  "ex_to = [0x11, 0x22, 0x33, 0x44, 0x55, 0x66, 0x77, 0x88, 0x99, 0xaa,
            0xbb, 0xcc, 0xdd, 0xee, 0xff, 0x01, 0x02, 0x03, 0x04, 0x05]"

definition ex_data :: txdata where
  "ex_data = \<lparr>d_props = [''nonce'' \<mapsto> Num 0, ''gasPrice'' \<mapsto> Num 1000, ''gas'' \<mapsto> Num 100000,
       ''to'' \<mapsto> Buf ex_to, ''value'' \<mapsto> Num 0, ''data'' \<mapsto> Buf [0x7f, 0x00]],
     d_chainId = Some 1\<rparr>"

definition ex_raw :: "bytes list" where
  "ex_raw = [[], [3, 232], [1, 134, 160], ex_to, [], [127, 0], [], [], [], [], [], [], [], [27], [], []]"

text \<open>The list that is RLP-encoded for an array of buffers.\<close>

definition rlp_list :: "bytes list \<Rightarrow> bytes" where
  "rlp_list xs =
     encodeLength (length (concat (map encode_buffer xs))) 192 @ concat (map encode_buffer xs)"

text \<open>
  The array that the specification gives for the unsigned signing pre-image: the number
  0 in the seventh place when the chain id is positive, the first six fields otherwise.
\<close>

definition spec_unsigned_items :: "tx \<Rightarrow> jsval list" where
  "spec_unsigned_items t =
     (if 0 < p_chainId t then
        [Buf (tx_nonce t), Buf (tx_gasPrice t), Buf (tx_gasLimit t), Buf (tx_to t),
         Buf (tx_value t), Buf (tx_data t), Num 0, Buf (tx_vote t), Buf (tx_nickname t),
         Buf (tx_asset t), Buf (tx_assetInfo t), Buf (tx_subAddress t), Buf (tx_abi t),
         Num (nat (p_chainId t)), Num 0, Num 0]
      else
        [Buf (tx_nonce t), Buf (tx_gasPrice t), Buf (tx_gasLimit t), Buf (tx_to t),
         Buf (tx_value t), Buf (tx_data t)])"

text \<open>An object with a non-empty \<open>action\<close> on chain 1.\<close>

definition cx_data :: txdata where
  "cx_data = \<lparr>d_props = [''action'' \<mapsto> Num 1], d_chainId = Some 1\<rparr>"

definition cx_raw :: "bytes list" where
  "cx_raw = [[], [], [], [], [], [], [1], [], [], [], [], [], [], [27], [], []]"

text \<open>A signed object whose \<open>s\<close> is \<open>2 ^ 255\<close>, above half the order of the curve.\<close>

definition high_s :: bytes where
  "high_s = 0x80 # replicate 31 0"

definition high_s_raw :: "bytes list" where
  "high_s_raw = [[], [3, 232], [1, 134, 160], ex_to, [], [127, 0], [], [], [], [], [], [], [],
                 [37], [1], high_s]"

text \<open>
  The first access to \<open>from\<close>: no address and no public key of positive length is
  cached, so \<open>getSenderAddress\<close> goes through \<open>verifySignature\<close>.
\<close>

definition first_access :: "tx \<Rightarrow> bool" where
  "first_access t = (p_from t = None \<and> (p_senderPubKey t = None \<or> p_senderPubKey t = Some []))"

text \<open>The constructor called without data.\<close>

definition empty_data :: txdata where
  "empty_data = \<lparr>d_props = Map.empty, d_chainId = None\<rparr>"

text \<open>The example with an \<open>action\<close> and a \<open>subAddress\<close>.\<close>

definition ex_raw2 :: "bytes list" where
  "ex_raw2 = [[], [3, 232], [1, 134, 160], ex_to, [], [127, 0], [1], [], [], [], [], [0x41], [],
              [27], [], []]"

text \<open>A private key for the examples, and the example built without a chain id.\<close>

definition ex_key :: bytes where
  "ex_key = replicate 31 0 @ [5]"

definition ex0_data :: txdata where
  "ex0_data = \<lparr>d_props = [''nonce'' \<mapsto> Num 0, ''gasPrice'' \<mapsto> Num 1000, ''gas'' \<mapsto> Num 100000,
       ''to'' \<mapsto> Buf ex_to, ''value'' \<mapsto> Num 0, ''data'' \<mapsto> Buf [0x7f, 0x00]],
     d_chainId = None\<rparr>"

text \<open>
  The raw fields that \<open>hash(true, chainID)\<close> encodes: \<open>v\<close> is overwritten with a
  chain id that is given and not 0. And the number that \<open>sign\<close> assigns to \<open>v\<close>.
\<close>

definition signing_raw :: "nat option \<Rightarrow> bytes list \<Rightarrow> bytes list" where
  "signing_raw chainID xs =
     (case chainID of
        None \<Rightarrow> xs
      | Some n \<Rightarrow> if n \<noteq> 0 then array_store xs 13 (intToBuffer n) else xs)"

definition signed_v :: "nat option \<Rightarrow> nat \<Rightarrow> nat" where
  "signed_v chainID recovery =
     (case chainID of
        None \<Rightarrow> recovery + 27
      | Some n \<Rightarrow> if 0 < n then recovery + 27 + (n * 2 + 8) else recovery + 27)"

text \<open>
  A contract creation (no \<open>to\<close>) on chain 1: the object, its raw fields once signed with
  the example key, the serialized bytes, what \<open>RLP.decode\<close> makes of them and what
  \<open>decodeTx\<close> returns with the example instance.
\<close>

definition cc_data :: txdata where
  "cc_data = \<lparr>d_props = [''nonce'' \<mapsto> Num 0, ''gasPrice'' \<mapsto> Num 1000, ''gas'' \<mapsto> Num 100000,
       ''data'' \<mapsto> Buf [0x60, 0x00]], d_chainId = Some 1\<rparr>"

definition cc_raw :: "bytes list" where
  "cc_raw = [[], [3, 232], [1, 134, 160], [], [], [96, 0], [], [], [], [], [], [], [], [27], [], []]"

definition cc_signed :: "bytes list" where
  "cc_signed = [[], [3, 232], [1, 134, 160], [], [], [96, 0], [], [], [], [], [], [], [],
                [37], [217, 237, 108, 173, 208, 17, 17, 209], [1]]"

definition cc_wire :: bytes where
  "cc_wire = [223, 128, 130, 3, 232, 131, 1, 134, 160, 128, 128, 130, 96, 0, 128, 128,
    128, 128, 128, 128, 128, 37, 136, 217, 237, 108, 173, 208, 17, 17, 209, 1]"

definition cc_decoded :: "rlpv list" where
  "cc_decoded = [RStr ''0x'', RStr ''0x03e8'', RStr ''0x0186a0'', RStr ''0x'',
          RStr ''0x'', RStr ''0x6000'', RStr ''0x'', RStr ''0x'',
          RStr ''0x'', RStr ''0x'', RStr ''0x'', RStr ''0x'', RStr ''0x'',
          RStr ''0x25'', RStr ''0xd9ed6cadd01111d1'', RStr ''0x01'']"

definition cc_obj :: decoded where
  "cc_obj = \<lparr>o_from = ''AOA0000000000000000000000004538eb072c156c69'',
          o_nonce = 0, o_gasPrice = 1000, o_gasLimit = 100000,
          o_to = Some ''AOA'', o_value = 0, o_data = RStr ''0x6000'',
          o_v = 37, o_r = ''0xd9ed6cadd01111d1'', o_s = ''0x01'',
          o_action = ''0x'', o_asset = RStr ''0x'',
          o_subAddress = [char_of (0 :: nat)]\<rparr>"

text \<open>The same for the example transfer, signed with the example key for chain 1.\<close>

definition ex_signed :: "bytes list" where
  "ex_signed = [[], [3, 232], [1, 134, 160], ex_to, [], [127, 0], [], [], [], [], [], [], [],
                [37], [105, 225, 48, 23, 71, 79, 194, 213], [1]]"

definition ex_wire :: bytes where
  "ex_wire = [243, 128, 130, 3, 232, 131, 1, 134, 160, 148, 17, 34, 51, 68, 85, 102,
    119, 136, 153, 170, 187, 204, 221, 238, 255, 1, 2, 3, 4, 5, 128, 130,
    127, 0, 128, 128, 128, 128, 128, 128, 128, 37, 136, 105, 225, 48, 23,
    71, 79, 194, 213, 1]"

definition ex_decoded :: "rlpv list" where
  "ex_decoded = [RStr ''0x'', RStr ''0x03e8'', RStr ''0x0186a0'',
          RStr ''0x112233445566778899aabbccddeeff0102030405'', RStr ''0x'',
          RStr ''0x7f00'', RStr ''0x'', RStr ''0x'', RStr ''0x'',
          RStr ''0x'', RStr ''0x'', RStr ''0x'', RStr ''0x'', RStr ''0x25'',
          RStr ''0x69e13017474fc2d5'', RStr ''0x01'']"

definition ex_obj :: decoded where
  "ex_obj = \<lparr>o_from = ''AOA000000000000000000000000d9d784d9dc70f00b'',
          o_nonce = 0, o_gasPrice = 1000, o_gasLimit = 100000,
          o_to = Some ''AOA112233445566778899aabbccddeeff0102030405'',
          o_value = 0, o_data = RStr ''0x7f00'', o_v = 37,
          o_r = ''0x69e13017474fc2d5'', o_s = ''0x01'', o_action = ''0x'',
          o_asset = RStr ''0x'', o_subAddress = [char_of (0 :: nat)]\<rparr>"

section \<open>Bytes and numbers\<close>

lemma be_bytes_0: "be_bytes 0 = []"
  by (simp add: be_bytes.simps)

lemma be_bytes_pos: "0 < n \<Longrightarrow> be_bytes n = be_bytes (n div 256) @ [of_nat (n mod 256)]"
  by (subst be_bytes.simps) simp

lemma bn_append: "bn (xs @ [b]) = 256 * bn xs + unat b"
  by (simp add: bn_def)

lemma bn_Nil: "bn [] = 0"
  by (simp add: bn_def)

lemma unat_byte_of_nat: "unat (of_nat (n mod 256) :: byte) = n mod 256"
  by (simp add: unat_of_nat)

lemma bn_be_bytes: "bn (be_bytes n) = n"
proof (induction n rule: be_bytes.induct)
  case (1 n)
  show ?case
  proof (cases "n = 0")
    case True
    then show ?thesis by (simp add: be_bytes_0 bn_Nil)
  next
    case False
    then have "bn (be_bytes n) = 256 * bn (be_bytes (n div 256)) + n mod 256"
      by (simp add: be_bytes_pos bn_append unat_byte_of_nat)
    with False 1 show ?thesis by simp
  qed
qed

lemma bn_foldl_shift: "foldl (\<lambda>a b. 256 * a + unat b) k bs = k * 256 ^ length bs + bn bs"
  unfolding bn_def
proof (induction bs arbitrary: k)
  case Nil
  then show ?case by simp
next
  case (Cons b bs)
  have "foldl (\<lambda>a b. 256 * a + unat b) (256 * k + unat b) bs
          = (256 * k + unat b) * 256 ^ length bs + foldl (\<lambda>a b. 256 * a + unat b) 0 bs"
    by (rule Cons.IH)
  moreover have "foldl (\<lambda>a b. 256 * a + unat b) (unat b) bs
          = unat b * 256 ^ length bs + foldl (\<lambda>a b. 256 * a + unat b) 0 bs"
    by (rule Cons.IH)
  ultimately show ?case by (simp add: algebra_simps)
qed

lemma bn_Cons: "bn (b # bs) = unat b * 256 ^ length bs + bn bs"
  using bn_foldl_shift [of "unat b" bs] by (simp add: bn_def)

lemma bn_zero_Cons: "bn (0 # bs) = bn bs"
  by (simp add: bn_Cons)

lemma bn_stripZeros: "bn (stripZeros bs) = bn bs"
  by (induction bs) (simp_all add: stripZeros_def bn_zero_Cons)

lemma bn_replicate_zero: "bn (replicate k 0 @ bs) = bn bs"
  by (induction k) (simp_all add: bn_zero_Cons)

lemma stripZeros_suffix: "\<exists>k. bs = replicate k 0 @ stripZeros bs"
proof (induction bs)
  case Nil
  then show ?case by (simp add: stripZeros_def)
next
  case (Cons b bs)
  show ?case
  proof (cases "b = 0")
    case True
    from Cons obtain k where "bs = replicate k 0 @ stripZeros bs" by blast
    then have "b # bs = replicate (Suc k) 0 @ stripZeros (b # bs)"
      using True by (simp add: stripZeros_def)
    then show ?thesis by blast
  next
    case False
    then have "b # bs = replicate 0 0 @ stripZeros (b # bs)" by (simp add: stripZeros_def)
    then show ?thesis by blast
  qed
qed

lemma length_stripZeros: "length (stripZeros bs) \<le> length bs"
  by (simp add: stripZeros_def length_dropWhile_le)

lemma setLength_stripZeros: "setLength (stripZeros bs) (length bs) = bs"
proof -
  obtain k where k: "bs = replicate k 0 @ stripZeros bs"
    using stripZeros_suffix by blast
  then have len: "length bs = k + length (stripZeros bs)"
    by (metis length_append length_replicate)
  show ?thesis
  proof (cases "k = 0")
    case True
    with k have "stripZeros bs = bs" by simp
    then show ?thesis by (simp add: setLength_def)
  next
    case False
    with len have "length (stripZeros bs) < length bs" by simp
    moreover from len have "length bs - length (stripZeros bs) = k" by simp
    ultimately show ?thesis using k by (simp add: setLength_def)
  qed
qed

section \<open>Setters and the constructor\<close>

lemma length_field_list: "length field_list = 16"
  by (simp add: field_list_def)

lemma this_raw_store [simp]: "this_raw (t\<lparr>arrays := (arrays t)(raw t := xs)\<rparr>) = xs"
  by (simp add: this_raw_def)

lemma setter_cases:
  assumes "setter i v t = Inr t'"
  obtains b where "canonical (field_list ! i) v = Inr b"
    and "t' = t\<lparr>arrays := (arrays t)(raw t := array_store (this_raw t) i b)\<rparr>"
  using assms by (auto simp: setter_def split: sum.splits)

lemma length_array_store: "i < length xs \<Longrightarrow> length (array_store xs i b) = length xs"
  by (simp add: array_store_def)

lemma setter_frame: "setter i v t = Inr t' \<Longrightarrow> same_frame t t'"
  by (erule setter_cases) (simp add: same_frame_def)

lemma setter_length:
  "setter i v t = Inr t' \<Longrightarrow> i < length (this_raw t) \<Longrightarrow> length (this_raw t') = length (this_raw t)"
  by (erule setter_cases) (simp add: length_array_store)

lemma assign_all_keeps:
  assumes "assign_all as t = Inr t'" and "\<forall>(i, v) \<in> set as. i < length (this_raw t)"
  shows "length (this_raw t') = length (this_raw t) \<and> same_frame t t'"
  using assms
proof (induction as arbitrary: t)
  case Nil
  then show ?case by (simp add: same_frame_def)
next
  case (Cons a as)
  obtain i v where a: "a = (i, v)" by (cases a)
  from Cons.prems(1) a obtain t1 where s: "setter i v t = Inr t1" and r: "assign_all as t1 = Inr t'"
    by (auto split: sum.splits)
  from Cons.prems(2) a have i: "i < length (this_raw t)" by simp
  have l1: "length (this_raw t1) = length (this_raw t)" using s i by (rule setter_length)
  have f1: "same_frame t t1" using s by (rule setter_frame)
  have "\<forall>(i, v) \<in> set as. i < length (this_raw t1)" using Cons.prems(2) l1 by simp
  with Cons.IH r have "length (this_raw t') = length (this_raw t1) \<and> same_frame t1 t'" by blast
  with l1 f1 show ?case by (simp add: same_frame_def)
qed

lemma data_assignments_indices: "\<forall>(i, v) \<in> set (data_assignments props). i < 16"
  by (auto simp: data_assignments_def length_field_list split: option.splits)

lemma canonical_default_v: "canonical (field_list ! 13) (Buf b) = Inr b"
  by (simp add: canonical_def field_list_def mk_field_def)

lemma upt16: "[0..<16] = [0,1,2,3,4,5,6,7,8,9,10,11,12,13,14,15]"
  by (simp add: upt_rec)

lemma defaults_run:
  "assign_all default_assignments blank = Inr (blank\<lparr>arrays := (arrays blank)(0 := default_raw)\<rparr>)"
  by (simp add: default_assignments_def length_field_list upt16 setter_def canonical_def
      field_list_def mk_field_def blank_def this_raw_def array_store_def stripZeros_def default_raw_def)

lemma subAddress_undefined: "array_prop field_list ''subAddress'' = None"
  by code_simp

lemma this_raw_mk_tx [simp]: "this_raw (mk_tx xs cid) = xs"
  by (simp add: mk_tx_def this_raw_def)

lemma tx_inv_mk_tx: "length xs = 16 \<Longrightarrow> tx_inv (mk_tx xs cid)"
  by (simp add: tx_inv_def) (simp add: mk_tx_def)

lemma defineProperties_eq:
  "defineProperties props =
     assign_all (data_assignments props) (blank\<lparr>arrays := (arrays blank)(0 := default_raw)\<rparr>)"
  by (simp add: defineProperties_def defaults_run)

lemma be_bytes_numeral [simp]:
  "be_bytes (numeral k) = be_bytes (numeral k div 256) @ [of_nat (numeral k mod 256)]"
  by (rule be_bytes_pos) simp

lemma be_bytes_1 [simp]: "be_bytes (Suc 0) = [1]"
  by (simp add: be_bytes_pos be_bytes_0)

lemmas eval_simps = be_bytes_0 intToBuffer_def stripZeros_def setLength_def bn_def
  canonical_def field_list_def mk_field_def setter_def array_store_def this_raw_def
  bufferToInt_def

lemma Transaction_eq:
  "Transaction data =
     (case defineProperties (d_props data) of
        Inl e \<Rightarrow> Inl e
      | Inr t \<Rightarrow>
          (case bufferToInt (tx_v t) of
             Inl e \<Rightarrow> Inl e
           | Inr sigV \<Rightarrow>
               let chainId0 = (int sigV - 35) div 2;
                   chainId = (if chainId0 < 0 then 0 else chainId0)
               in Inr (t\<lparr>p_chainId :=
                            (if chainId \<noteq> 0 then chainId
                             else (case d_chainId data of
                                     None \<Rightarrow> 0
                                   | Some d \<Rightarrow> if d \<noteq> 0 then d else 0)),
                          p_homestead := True,
                          p_subAddress := None\<rparr>)))"
  unfolding Transaction_def subAddress_undefined by (rule refl)

lemma ex_data_run: "Transaction ex_data = Inr (mk_tx ex_raw 1)"
  by (simp add: Transaction_eq defineProperties_eq data_assignments_def length_field_list upt16
        ex_data_def eval_simps blank_def default_raw_def mk_tx_def ex_raw_def ex_to_def)

lemma this_raw_frame [simp]:
  "this_raw (t\<lparr>p_chainId := a\<rparr>) = this_raw t"
  "this_raw (t\<lparr>p_homestead := b\<rparr>) = this_raw t"
  "this_raw (t\<lparr>p_subAddress := d\<rparr>) = this_raw t"
  "this_raw (t\<lparr>p_senderPubKey := k\<rparr>) = this_raw t"
  "this_raw (t\<lparr>p_from := f\<rparr>) = this_raw t"
  by (simp_all add: this_raw_def)

lemma Transaction_cases:
  assumes "Transaction data = Inr t"
  obtains t0 sigV where "defineProperties (d_props data) = Inr t0"
    and "bufferToInt (tx_v t0) = Inr sigV"
    and "t = t0\<lparr>p_chainId :=
                  (let chainId0 = (int sigV - 35) div 2;
                       chainId = (if chainId0 < 0 then 0 else chainId0)
                   in if chainId \<noteq> 0 then chainId
                      else (case d_chainId data of None \<Rightarrow> 0 | Some d \<Rightarrow> if d \<noteq> 0 then d else 0)),
                p_homestead := True, p_subAddress := None\<rparr>"
  using assms unfolding Transaction_eq by (auto simp: Let_def split: sum.splits)

lemma defineProperties_shape:
  assumes "defineProperties props = Inr t0"
  shows "length (this_raw t0) = 16 \<and> raw t0 = 0 \<and> fresh t0 = 1"
proof -
  let ?s = "blank\<lparr>arrays := (arrays blank)(0 := default_raw)\<rparr>"
  have run: "assign_all (data_assignments props) ?s = Inr t0"
    using assms by (simp add: defineProperties_eq)
  have raw_s: "this_raw ?s = default_raw" by (simp add: this_raw_def blank_def)
  have len_s: "length (this_raw ?s) = 16" unfolding raw_s by (simp add: default_raw_def)
  have "\<forall>(i, v) \<in> set (data_assignments props). i < length (this_raw ?s)"
    using data_assignments_indices [of props] len_s by simp
  with run have both: "length (this_raw t0) = length (this_raw ?s) \<and> same_frame ?s t0"
    by (rule assign_all_keeps)
  from both len_s have "length (this_raw t0) = 16" by simp
  moreover from both have "raw t0 = 0 \<and> fresh t0 = 1" by (simp add: same_frame_def blank_def)
  ultimately show ?thesis by simp
qed

lemma Transaction_inv: "Transaction data = Inr t \<Longrightarrow> tx_inv t"
proof (erule Transaction_cases)
  fix t0 sigV
  assume d: "defineProperties (d_props data) = Inr t0"
    and t: "t = t0\<lparr>p_chainId :=
                  (let chainId0 = (int sigV - 35) div 2;
                       chainId = (if chainId0 < 0 then 0 else chainId0)
                   in if chainId \<noteq> 0 then chainId
                      else (case d_chainId data of None \<Rightarrow> 0 | Some d \<Rightarrow> if d \<noteq> 0 then d else 0)),
                p_homestead := True, p_subAddress := None\<rparr>"
  from d have "length (this_raw t0) = 16 \<and> raw t0 = 0 \<and> fresh t0 = 1"
    by (rule defineProperties_shape)
  then show "tx_inv t" by (simp add: t tx_inv_def)
qed

section \<open>The chain id derived by the constructor\<close>

text \<open>
  Claim C7. Whenever the constructor returns, the chain id of the object is
  \<open>floor((v - 35) / 2)\<close> for \<open>v \<ge> 35\<close> and 0 otherwise, unless that value is 0: then, and
  only then, it is the \<open>chainId\<close> given in the data (0 when none is given). Here \<open>v\<close>
  is the field \<open>v\<close> of the object read as a number.
\<close>

theorem constructor_chainId:
  assumes "Transaction data = Inr t"
  shows "getChainId t =
           (let v = int (bn (tx_v t));
                derived = (if 35 \<le> v then (v - 35) div 2 else 0)
            in if derived \<noteq> 0 then derived
               else (case d_chainId data of None \<Rightarrow> 0 | Some d \<Rightarrow> d))"
  using assms
proof (rule Transaction_cases)
  fix t0 sigV
  assume v: "bufferToInt (tx_v t0) = Inr sigV"
    and t: "t = t0\<lparr>p_chainId :=
                  (let chainId0 = (int sigV - 35) div 2;
                       chainId = (if chainId0 < 0 then 0 else chainId0)
                   in if chainId \<noteq> 0 then chainId
                      else (case d_chainId data of None \<Rightarrow> 0 | Some d \<Rightarrow> if d \<noteq> 0 then d else 0)),
                p_homestead := True, p_subAddress := None\<rparr>"
  from v have sv: "sigV = bn (tx_v t0)" by (simp add: bufferToInt_def split: if_splits)
  have raw: "tx_v t = tx_v t0" by (simp add: t)
  have neg: "(int sigV - 35) div 2 < 0 \<longleftrightarrow> \<not> 35 \<le> int sigV" by presburger
  show ?thesis
    unfolding getChainId_def raw
    by (simp add: t sv [symmetric] Let_def neg split: option.splits)
qed

theorem constructor_chainId_witness:
  "Transaction ex_data = Inr (mk_tx ex_raw 1) \<and> getChainId (mk_tx ex_raw 1) = 1 \<and>
   bn (tx_v (mk_tx ex_raw 1)) = 27 \<and> d_chainId ex_data = Some 1"
proof -
  have "getChainId (mk_tx ex_raw 1) = 1"
    using constructor_chainId [OF ex_data_run] by (simp add: ex_raw_def bn_def ex_data_def)
  moreover have "bn (tx_v (mk_tx ex_raw 1)) = 27" by (simp add: ex_raw_def bn_def)
  moreover have "d_chainId ex_data = Some 1" by (simp add: ex_data_def)
  ultimately show ?thesis using ex_data_run by simp
qed

lemma set_v_Num:
  "set_v (Num n) t = Inr (t\<lparr>arrays := (arrays t)(raw t := array_store (this_raw t) 13 (intToBuffer n))\<rparr>)"
  by (simp add: setter_def canonical_def field_list_def mk_field_def)

lemma set_r_zero:
  "set_r (Num 0) t = Inr (t\<lparr>arrays := (arrays t)(raw t := array_store (this_raw t) 14 [])\<rparr>)"
  by (simp add: setter_def canonical_def field_list_def mk_field_def intToBuffer_def stripZeros_def)

lemma set_s_zero:
  "set_s (Num 0) t = Inr (t\<lparr>arrays := (arrays t)(raw t := array_store (this_raw t) 15 [])\<rparr>)"
  by (simp add: setter_def canonical_def field_list_def mk_field_def intToBuffer_def stripZeros_def)

lemma hash_items_unsigned_pos:
  assumes "raw t < fresh t" and "0 < p_chainId t"
  shows "hash_items (Some False) chainID t =
           (Inr (array_store (array_store (array_store (this_raw t) 13
                    (intToBuffer (nat (p_chainId t)))) 14 []) 15 []),
            t\<lparr>arrays := (arrays t)(fresh t := this_raw t,
                  raw t := array_store (array_store (array_store (this_raw t) 13
                    (intToBuffer (nat (p_chainId t)))) 14 []) 15 []),
              fresh := Suc (fresh t), raw := fresh t\<rparr>)"
proof -
  have ne: "raw t \<noteq> fresh t" using assms(1) by simp
  have pre: "(case chainID of None \<Rightarrow> Inr t
              | Some n \<Rightarrow> if False \<and> n \<noteq> 0 then set_v (Num n) t else Inr t) = Inr t"
    by (cases chainID) simp_all
  show ?thesis
    unfolding hash_items_def
    using assms(2) ne
    by (simp add: pre slice_raw_def set_v_Num set_r_zero set_s_zero this_raw_def Let_def)
qed

lemma hash_items_unsigned_nonpos:
  assumes "\<not> 0 < p_chainId t"
  shows "hash_items (Some False) chainID t = (Inr (take 6 (this_raw t)), t)"
proof -
  have pre: "(case chainID of None \<Rightarrow> Inr t
              | Some n \<Rightarrow> if False \<and> n \<noteq> 0 then set_v (Num n) t else Inr t) = Inr t"
    by (cases chainID) simp_all
  show ?thesis unfolding hash_items_def using assms by (simp add: pre)
qed

lemma rlp_encode_item_Buf [simp]: "rlp_encode_item (Buf b) = Inr (encode_buffer b)"
  by (simp add: rlp_encode_item_def)

lemma rlp_encode_item_Num [simp]:
  "rlp_encode_item (Num n) = Inr (encode_buffer (if n = 0 then [] else intToBuffer n))"
  by (simp add: rlp_encode_item_def)

lemma rlp_encode_item_Undefined [simp]: "rlp_encode_item Undefined = Inr (encode_buffer [])"
  by (simp add: rlp_encode_item_def)

lemma rlp_encode_items_Buf:
  "rlp_encode_items (map Buf xs) = Inr (concat (map encode_buffer xs))"
  by (induction xs) simp_all

lemma rlp_encode_Buf: "rlp_encode (map Buf xs) = Inr (rlp_list xs)"
  by (simp add: rlp_encode_def rlp_encode_items_Buf rlp_list_def)

lemma rlphash_Buf: "rlphash c (map Buf xs) = Inr (keccak256 c (rlp_list xs))"
  by (simp add: rlphash_def rlp_encode_Buf)

lemma list16:
  assumes "length xs = 16"
  shows "xs = [xs ! 0, xs ! 1, xs ! 2, xs ! 3, xs ! 4, xs ! 5, xs ! 6, xs ! 7, xs ! 8,
               xs ! 9, xs ! 10, xs ! 11, xs ! 12, xs ! 13, xs ! 14, xs ! 15]"
proof -
  from assms obtain x0 x1 x2 x3 x4 x5 x6 x7 x8 x9 x10 x11 x12 x13 x14 x15
    where "xs = [x0, x1, x2, x3, x4, x5, x6, x7, x8, x9, x10, x11, x12, x13, x14, x15]"
    by (auto simp: eval_nat_numeral length_Suc_conv)
  then show ?thesis by simp
qed

lemma list_update_Cons_numeral:
  "(x # xs)[numeral k := y] = x # xs[pred_numeral k := y]"
  by (simp add: numeral_eq_Suc)

lemma store_vrs:
  assumes "length xs = 16"
  shows "array_store (array_store (array_store xs 13 v) 14 r) 15 s =
           [xs ! 0, xs ! 1, xs ! 2, xs ! 3, xs ! 4, xs ! 5, xs ! 6, xs ! 7, xs ! 8,
            xs ! 9, xs ! 10, xs ! 11, xs ! 12, v, r, s]"
proof -
  from assms obtain x0 x1 x2 x3 x4 x5 x6 x7 x8 x9 x10 x11 x12 x13 x14 x15
    where "xs = [x0, x1, x2, x3, x4, x5, x6, x7, x8, x9, x10, x11, x12, x13, x14, x15]"
    by (auto simp: eval_nat_numeral length_Suc_conv)
  then show ?thesis by (simp add: array_store_def list_update_Cons_numeral)
qed

lemma take6:
  assumes "length xs = 16"
  shows "take 6 xs = [xs ! 0, xs ! 1, xs ! 2, xs ! 3, xs ! 4, xs ! 5]"
proof -
  from assms obtain x0 x1 x2 x3 x4 x5 x6 x7 x8 x9 x10 x11 x12 x13 x14 x15
    where "xs = [x0, x1, x2, x3, x4, x5, x6, x7, x8, x9, x10, x11, x12, x13, x14, x15]"
    by (auto simp: eval_nat_numeral length_Suc_conv)
  then show ?thesis by simp
qed

section \<open>The unsigned hash\<close>

text \<open>
  Claim C5. For an object with a positive chain id, \<open>hash(false)\<close> returns a digest
  (no setter throws on the way), and afterwards the array of raw fields holds the same
  buffers as before the call, the entries \<open>v\<close>, \<open>r\<close> and \<open>s\<close> among them: the
  substitution \<open>v = chainId\<close>, \<open>r = 0\<close>, \<open>s = 0\<close> went to the array that \<open>this.raw\<close>
  no longer points to.
\<close>

theorem hash_restores_raw:
  assumes "tx_inv t" and "0 < p_chainId t"
  shows "(\<exists>digest. fst (hash c (Some False) chainID t) = Inr digest) \<and>
         this_raw (snd (hash c (Some False) chainID t)) = this_raw t \<and>
         tx_v (snd (hash c (Some False) chainID t)) = tx_v t \<and>
         tx_r (snd (hash c (Some False) chainID t)) = tx_r t \<and>
         tx_s (snd (hash c (Some False) chainID t)) = tx_s t"
proof -
  from assms(1) have lt: "raw t < fresh t" by (simp add: tx_inv_def)
  then have ne: "fresh t \<noteq> raw t" by simp
  have raw': "this_raw (snd (hash_items (Some False) chainID t)) = this_raw t"
    using ne by (simp add: hash_items_unsigned_pos [OF lt assms(2)] this_raw_def)
  have st: "snd (hash c (Some False) chainID t) = snd (hash_items (Some False) chainID t)"
    by (simp add: hash_def hash_items_unsigned_pos [OF lt assms(2)])
  have res: "\<exists>digest. fst (hash c (Some False) chainID t) = Inr digest"
    by (simp add: hash_def hash_items_unsigned_pos [OF lt assms(2)] rlphash_Buf)
  show ?thesis using res by (simp add: st raw')
qed

lemma ex_inv: "tx_inv (mk_tx ex_raw 1)"
  by (rule tx_inv_mk_tx) (simp add: ex_raw_def)

theorem hash_restores_raw_witness:
  "tx_inv (mk_tx ex_raw 1) \<and> 0 < p_chainId (mk_tx ex_raw 1) \<and>
   this_raw (snd (hash demo_crypto (Some False) None (mk_tx ex_raw 1))) = ex_raw \<and>
   tx_v (snd (hash demo_crypto (Some False) None (mk_tx ex_raw 1))) = [27]"
proof -
  have pos: "0 < p_chainId (mk_tx ex_raw 1)" by (simp add: mk_tx_def)
  have v: "tx_v (mk_tx ex_raw 1) = [27]" by (simp add: ex_raw_def)
  show ?thesis
    using hash_restores_raw [OF ex_inv pos, of demo_crypto None] ex_inv pos v by simp
qed

text \<open>
  Claim C2, amended. For a positive chain id \<open>hash(false)\<close> is the digest of the RLP
  encoding of the sixteen entries \<open>nonce, gasPrice, gasLimit, to, value, data, action,
  vote, nickname, asset, assetInfo, subAddress, abi, chainId, 0, 0\<close>: the seventh entry
  is the field \<open>action\<close> of the object, not the number 0. For a chain id that is not
  positive it is the digest of the encoding of the first six fields.
\<close>

theorem hash_unsigned_preimage:
  assumes "tx_inv t"
  shows "fst (hash c (Some False) chainID t) =
           (if 0 < p_chainId t then
              rlphash c
                [Buf (tx_nonce t), Buf (tx_gasPrice t), Buf (tx_gasLimit t), Buf (tx_to t),
                 Buf (tx_value t), Buf (tx_data t), Buf (tx_action t), Buf (tx_vote t),
                 Buf (tx_nickname t), Buf (tx_asset t), Buf (tx_assetInfo t),
                 Buf (tx_subAddress t), Buf (tx_abi t), Num (nat (p_chainId t)), Num 0, Num 0]
            else
              rlphash c
                [Buf (tx_nonce t), Buf (tx_gasPrice t), Buf (tx_gasLimit t), Buf (tx_to t),
                 Buf (tx_value t), Buf (tx_data t)])"
proof (cases "0 < p_chainId t")
  case True
  from assms have lt: "raw t < fresh t" and len: "length (this_raw t) = 16"
    by (simp_all add: tx_inv_def)
  from True have n0: "nat (p_chainId t) \<noteq> 0" by simp
  have "fst (hash c (Some False) chainID t) =
          rlphash c (map Buf (array_store (array_store (array_store (this_raw t) 13
                    (intToBuffer (nat (p_chainId t)))) 14 []) 15 []))"
    by (simp add: hash_def hash_items_unsigned_pos [OF lt True])
  also have "\<dots> = rlphash c
                [Buf (tx_nonce t), Buf (tx_gasPrice t), Buf (tx_gasLimit t), Buf (tx_to t),
                 Buf (tx_value t), Buf (tx_data t), Buf (tx_action t), Buf (tx_vote t),
                 Buf (tx_nickname t), Buf (tx_asset t), Buf (tx_assetInfo t),
                 Buf (tx_subAddress t), Buf (tx_abi t), Num (nat (p_chainId t)), Num 0, Num 0]"
    using True by (simp add: store_vrs [OF len] rlphash_def rlp_encode_def)
  finally show ?thesis using True by simp
next
  case False
  from assms have len: "length (this_raw t) = 16" by (simp add: tx_inv_def)
  have "take 6 (this_raw t) = [tx_nonce t, tx_gasPrice t, tx_gasLimit t, tx_to t, tx_value t, tx_data t]"
    by (rule take6 [OF len])
  then show ?thesis
    using False by (simp add: hash_def hash_items_unsigned_nonpos)
qed

lemma cx_data_run: "Transaction cx_data = Inr (mk_tx cx_raw 1)"
  by (simp add: Transaction_eq defineProperties_eq data_assignments_def length_field_list upt16
        cx_data_def eval_simps blank_def default_raw_def mk_tx_def cx_raw_def)

lemma cx_inv: "tx_inv (mk_tx cx_raw 1)"
  by (rule tx_inv_mk_tx) (simp add: cx_raw_def)

lemma raw_lt_fresh_mk_tx: "raw (mk_tx xs cid) < fresh (mk_tx xs cid)"
  by (simp add: mk_tx_def)

lemma p_chainId_mk_tx [simp]: "p_chainId (mk_tx xs cid) = cid"
  by (simp add: mk_tx_def)

lemmas rlp_eval = rlp_encode_def encode_buffer_def encodeLength_def intToBuffer_def

theorem hash_unsigned_preimage_witness:
  "tx_inv (mk_tx ex_raw 1) \<and>
   fst (hash demo_crypto (Some False) None (mk_tx ex_raw 1)) =
     rlphash demo_crypto
       [Buf [], Buf [3, 232], Buf [1, 134, 160], Buf ex_to, Buf [], Buf [127, 0], Buf [],
        Buf [], Buf [], Buf [], Buf [], Buf [], Buf [], Num 1, Num 0, Num 0]"
  using hash_unsigned_preimage [OF ex_inv, of demo_crypto None] ex_inv
  by (simp add: ex_raw_def)

lemma fst_hash:
  "fst (hash c inc chainID t) =
     (case fst (hash_items inc chainID t) of
        Inl e \<Rightarrow> Inl e
      | Inr items \<Rightarrow> rlphash c (map Buf items))"
  by (simp add: hash_def split: prod.splits sum.splits)

lemma snd_hash: "snd (hash c inc chainID t) = snd (hash_items inc chainID t)"
  by (simp add: hash_def split: prod.splits sum.splits)

text \<open>
  Claim C2 as stated fails for the object built from \<open>{action: 1, chainId: 1}\<close>. The
  array that \<open>hash(false)\<close> encodes has the byte 1 in the seventh place, the array of
  the claim has the number 0 there, and the two encodings differ in that byte (\<open>0x01\<close>
  against \<open>0x80\<close>); with the example instance the two digests differ as well.
\<close>

theorem hash_unsigned_preimage_counterexample:
  "Transaction cx_data = Inr (mk_tx cx_raw 1) \<and> 0 < p_chainId (mk_tx cx_raw 1) \<and>
   fst (hash_items (Some False) None (mk_tx cx_raw 1)) =
     Inr [[], [], [], [], [], [], [1], [], [], [], [], [], [], [1], [], []] \<and>
   rlp_encode (map Buf [[], [], [], [], [], [], [1], [], [], [], [], [], [], [1], [], []]) =
     Inr [0xd0, 0x80, 0x80, 0x80, 0x80, 0x80, 0x80, 0x01, 0x80, 0x80, 0x80, 0x80, 0x80, 0x80,
          0x01, 0x80, 0x80] \<and>
   rlp_encode (spec_unsigned_items (mk_tx cx_raw 1)) =
     Inr [0xd0, 0x80, 0x80, 0x80, 0x80, 0x80, 0x80, 0x80, 0x80, 0x80, 0x80, 0x80, 0x80, 0x80,
          0x01, 0x80, 0x80] \<and>
   fst (hash demo_crypto (Some False) None (mk_tx cx_raw 1)) \<noteq>
     rlphash demo_crypto (spec_unsigned_items (mk_tx cx_raw 1))"
proof -
  have pos: "0 < p_chainId (mk_tx cx_raw 1)" by simp
  have items: "fst (hash_items (Some False) None (mk_tx cx_raw 1)) =
     Inr [[], [], [], [], [], [], [1], [], [], [], [], [], [], [1], [], []]"
    by (simp add: hash_items_unsigned_pos [OF raw_lt_fresh_mk_tx pos])
       (simp add: cx_raw_def array_store_def list_update_Cons_numeral intToBuffer_def)
  have code: "rlp_encode (map Buf [[], [], [], [], [], [], [1], [], [], [], [], [], [], [1], [], []]) =
     Inr [0xd0, 0x80, 0x80, 0x80, 0x80, 0x80, 0x80, 0x01, 0x80, 0x80, 0x80, 0x80, 0x80, 0x80,
          0x01, 0x80, 0x80]"
    by (simp add: rlp_eval)
  have spec: "rlp_encode (spec_unsigned_items (mk_tx cx_raw 1)) =
     Inr [0xd0, 0x80, 0x80, 0x80, 0x80, 0x80, 0x80, 0x80, 0x80, 0x80, 0x80, 0x80, 0x80, 0x80,
          0x01, 0x80, 0x80]"
    by (simp add: spec_unsigned_items_def cx_raw_def rlp_eval)
  have h1: "fst (hash demo_crypto (Some False) None (mk_tx cx_raw 1)) =
              Inr (demo_keccak [0xd0, 0x80, 0x80, 0x80, 0x80, 0x80, 0x80, 0x01, 0x80, 0x80, 0x80,
                     0x80, 0x80, 0x80, 0x01, 0x80, 0x80])"
    using code by (simp add: fst_hash items rlphash_def demo_crypto_def)
  have h2: "rlphash demo_crypto (spec_unsigned_items (mk_tx cx_raw 1)) =
              Inr (demo_keccak [0xd0, 0x80, 0x80, 0x80, 0x80, 0x80, 0x80, 0x80, 0x80, 0x80, 0x80,
                     0x80, 0x80, 0x80, 0x01, 0x80, 0x80])"
    using spec by (simp add: rlphash_def demo_crypto_def)
  have ne: "demo_keccak [0xd0, 0x80, 0x80, 0x80, 0x80, 0x80, 0x80, 0x01, 0x80, 0x80, 0x80,
                     0x80, 0x80, 0x80, 0x01, 0x80, 0x80] \<noteq>
            demo_keccak [0xd0, 0x80, 0x80, 0x80, 0x80, 0x80, 0x80, 0x80, 0x80, 0x80, 0x80,
                     0x80, 0x80, 0x80, 0x01, 0x80, 0x80]"
    by (simp add: demo_keccak_def setLength_def be_bytes_0)
  show ?thesis using cx_data_run pos items code spec h1 h2 ne by simp
qed

section \<open>Verification\<close>

lemma N_DIV_2_half: "N_DIV_2 = secp256k1n div 2"
  by (simp add: N_DIV_2_def secp256k1n_def)

lemma rlphash_verify_items:
  assumes "p_subAddress t = None"
  shows "rlphash c (verify_items t) =
           Inr (keccak256 c (rlp_list
             [tx_nonce t, tx_gasPrice t, tx_gasLimit t, tx_to t, tx_value t, tx_data t, [],
              tx_vote t, tx_nickname t, tx_asset t, tx_assetInfo t, [], tx_abi t,
              (if nat (p_chainId t) = 0 then [] else intToBuffer (nat (p_chainId t))), [], []]))"
  using assms by (simp add: rlphash_def rlp_encode_def verify_items_def rlp_list_def)

text \<open>
  Claim C6. When the field \<open>s\<close>, read as an unsigned big-endian integer, is above half
  the order of secp256k1, \<open>verifySignature\<close> returns \<open>false\<close>, whatever the
  primitives would recover. (\<open>N_DIV_2\<close> is that half, rounded down.)
\<close>

theorem verify_rejects_high_s:
  assumes "tx_inv t" and "secp256k1n div 2 < bn (tx_s t)"
  shows "fst (verifySignature c t) = Inr False"
proof -
  from assms(1) have sub: "p_subAddress (t\<lparr>p_chainId := 1\<rparr>) = None"
    and hs: "p_homestead (t\<lparr>p_chainId := 1\<rparr>)"
    by (simp_all add: tx_inv_def)
  from assms(2) have s: "N_DIV_2 < bn (tx_s (t\<lparr>p_chainId := 1\<rparr>))"
    by (simp add: N_DIV_2_half)
  show ?thesis
    unfolding verifySignature_def Let_def rlphash_verify_items [OF sub]
    using hs s by simp
qed

lemma bn_high_s: "bn high_s = 2 ^ 255"
  by (simp add: high_s_def bn_Cons bn_replicate_zero [of 31 "[]", simplified] bn_Nil)

theorem verify_rejects_high_s_witness:
  "tx_inv (mk_tx high_s_raw 1) \<and> secp256k1n div 2 < bn (tx_s (mk_tx high_s_raw 1)) \<and>
   fst (verifySignature demo_crypto (mk_tx high_s_raw 1)) = Inr False"
proof -
  have inv: "tx_inv (mk_tx high_s_raw 1)"
    by (rule tx_inv_mk_tx) (simp add: high_s_raw_def)
  have s: "secp256k1n div 2 < bn (tx_s (mk_tx high_s_raw 1))"
    by (simp add: high_s_raw_def bn_high_s secp256k1n_def)
  show ?thesis using verify_rejects_high_s [OF inv s, of demo_crypto] inv s by simp
qed

lemma verifySignature_frame:
  "this_raw (snd (verifySignature c t)) = this_raw t \<and>
   p_chainId (snd (verifySignature c t)) = 1 \<and>
   raw (snd (verifySignature c t)) = raw t \<and>
   fresh (snd (verifySignature c t)) = fresh t \<and>
   p_homestead (snd (verifySignature c t)) = p_homestead t \<and>
   p_subAddress (snd (verifySignature c t)) = p_subAddress t \<and>
   p_from (snd (verifySignature c t)) = p_from t"
  by (simp add: verifySignature_def Let_def this_raw_def split: sum.splits)

lemma fst_verifySignature:
  "fst (verifySignature c t) =
     (case rlphash c (verify_items (t\<lparr>p_chainId := 1\<rparr>)) of
        Inl e \<Rightarrow> Inl e
      | Inr msgHash \<Rightarrow>
          if p_homestead t \<and> N_DIV_2 < bn (tx_s t) then Inr False
          else
            (case bufferToInt (tx_v t) of
               Inl e \<Rightarrow> Inr False
             | Inr sigV \<Rightarrow>
                 (case ecrecover c msgHash (int sigV - 10) (tx_r t) (tx_s t) of
                    Inl e \<Rightarrow> Inr False
                  | Inr senderPubKey \<Rightarrow> Inr True)))"
  by (auto simp: verifySignature_def Let_def split: sum.splits)

lemma key_verifySignature:
  "p_senderPubKey (snd (verifySignature c t)) =
     (case rlphash c (verify_items (t\<lparr>p_chainId := 1\<rparr>)) of
        Inl e \<Rightarrow> p_senderPubKey t
      | Inr msgHash \<Rightarrow>
          if p_homestead t \<and> N_DIV_2 < bn (tx_s t) then p_senderPubKey t
          else
            (case bufferToInt (tx_v t) of
               Inl e \<Rightarrow> p_senderPubKey t
             | Inr sigV \<Rightarrow>
                 (case ecrecover c msgHash (int sigV - 10) (tx_r t) (tx_s t) of
                    Inl e \<Rightarrow> p_senderPubKey t
                  | Inr senderPubKey \<Rightarrow> Some senderPubKey)))"
  by (auto simp: verifySignature_def Let_def split: sum.splits)

lemma fst_getSenderPublicKey:
  "fst (getSenderPublicKey c t) =
     (if p_senderPubKey t = None \<or> p_senderPubKey t = Some [] then
        (case fst (verifySignature c t) of
           Inl e \<Rightarrow> Inl e
         | Inr ok \<Rightarrow>
             if \<not> ok then Inl InvalidSignature
             else Inr (p_senderPubKey (snd (verifySignature c t))))
      else Inr (p_senderPubKey t))"
  by (simp add: getSenderPublicKey_def split: prod.splits sum.splits)

lemma fst_getSenderAddress:
  "fst (getSenderAddress c t) =
     (case p_from t of
        Some a \<Rightarrow> Inr a
      | None \<Rightarrow>
          (case fst (getSenderPublicKey c t) of
             Inl e \<Rightarrow> Inl e
           | Inr pubkey \<Rightarrow> publicToAddress c (case pubkey of None \<Rightarrow> [] | Some k \<Rightarrow> k)))"
  by (simp add: getSenderAddress_def split: option.splits prod.splits sum.splits)

lemma validate_state: "snd (validate c f se t) = snd (verifySignature c t)"
  by (simp add: validate_def Let_def split: prod.splits sum.splits)

lemma getSenderAddress_chainId:
  "p_chainId (snd (getSenderAddress c t)) = (if first_access t then 1 else p_chainId t)"
  using verifySignature_frame [of c t]
  by (auto simp: getSenderAddress_def getSenderPublicKey_def first_access_def
      split: option.splits prod.splits sum.splits)

lemma getSenderAddress_raw:
  "this_raw (snd (getSenderAddress c t)) = this_raw t"
  using verifySignature_frame [of c t]
  by (auto simp: getSenderAddress_def getSenderPublicKey_def
      split: option.splits prod.splits sum.splits)

text \<open>
  Claim C4, amended. \<open>verifySignature\<close>, \<open>validate\<close> and the accessor \<open>from\<close> leave
  the raw fields as they are, but \<open>verifySignature\<close> assigns \<open>this._chainId = 1\<close>: after
  \<open>verifySignature\<close> or \<open>validate\<close>, and after the first access to \<open>from\<close>,
  \<open>getChainId\<close> returns 1, whatever chain id the constructor derived. (It also caches
  the recovered public key, and \<open>from\<close> the address.)
\<close>

theorem verification_sets_chainId:
  "this_raw (snd (verifySignature c t)) = this_raw t \<and>
   getChainId (snd (verifySignature c t)) = 1 \<and>
   this_raw (snd (validate c f stringError t)) = this_raw t \<and>
   getChainId (snd (validate c f stringError t)) = 1 \<and>
   this_raw (snd (getSenderAddress c t)) = this_raw t \<and>
   getChainId (snd (getSenderAddress c t)) = (if first_access t then 1 else getChainId t)"
  using verifySignature_frame [of c t]
  by (simp add: validate_state getChainId_def getSenderAddress_chainId getSenderAddress_raw)

lemma empty_data_run: "Transaction empty_data = Inr (mk_tx default_raw 0)"
  by (simp add: Transaction_eq defineProperties_eq data_assignments_def length_field_list upt16
        empty_data_def eval_simps blank_def default_raw_def mk_tx_def)

text \<open>
  Claim C4 as stated fails for the object built without data: the constructor derives
  the chain id 0, and after \<open>verifySignature\<close>, \<open>validate\<close> or \<open>from\<close> the chain id
  is 1.
\<close>

theorem verification_sets_chainId_counterexample:
  "Transaction empty_data = Inr (mk_tx default_raw 0) \<and>
   getChainId (mk_tx default_raw 0) = 0 \<and>
   getChainId (snd (verifySignature demo_crypto (mk_tx default_raw 0))) = 1 \<and>
   getChainId (snd (validate demo_crypto demo_fees None (mk_tx default_raw 0))) = 1 \<and>
   getChainId (snd (getSenderAddress demo_crypto (mk_tx default_raw 0))) = 1"
  using verifySignature_frame [of demo_crypto "mk_tx default_raw 0"] empty_data_run
  by (simp add: validate_state getChainId_def getSenderAddress_chainId first_access_def)
     (simp add: mk_tx_def)

lemma nth_update2:
  assumes "length xs = 16" and "i < 16" and "i \<noteq> 6" and "i \<noteq> 11"
  shows "xs[6 := a, 11 := b] ! i = xs ! i"
  using assms by simp

lemma verify_items_ignore:
  assumes "length (this_raw t1) = 16" and "this_raw t2 = (this_raw t1)[6 := a, 11 := b]"
    and "p_subAddress t1 = None" and "p_subAddress t2 = None"
  shows "verify_items (t2\<lparr>p_chainId := 1\<rparr>) = verify_items (t1\<lparr>p_chainId := 1\<rparr>)"
  using assms by (simp add: verify_items_def)

text \<open>
  Claim C10. The message hashed by \<open>verifySignature\<close> has the number 0 in the place of
  \<open>action\<close> and \<open>this._subAddress\<close>, which is \<open>undefined\<close>, in the place of
  \<open>subAddress\<close>. So two objects that differ in the fields \<open>action\<close> and
  \<open>subAddress\<close> only have the same verification hash, the same result of
  \<open>verifySignature\<close>, the same recovered public key and the same sender address.
\<close>

theorem verification_ignores_action_subAddress:
  assumes "tx_inv t1" and "tx_inv t2"
    and "this_raw t2 = (this_raw t1)[6 := a, 11 := b]"
    and "p_senderPubKey t2 = p_senderPubKey t1" and "p_from t2 = p_from t1"
  shows "rlphash c (verify_items (t2\<lparr>p_chainId := 1\<rparr>)) =
           rlphash c (verify_items (t1\<lparr>p_chainId := 1\<rparr>)) \<and>
         fst (verifySignature c t2) = fst (verifySignature c t1) \<and>
         p_senderPubKey (snd (verifySignature c t2)) = p_senderPubKey (snd (verifySignature c t1)) \<and>
         fst (getSenderAddress c t2) = fst (getSenderAddress c t1)"
proof -
  from assms(1,2) have len: "length (this_raw t1) = 16"
    and sub: "p_subAddress t1 = None" "p_subAddress t2 = None"
    and hs: "p_homestead t1" "p_homestead t2"
    by (simp_all add: tx_inv_def)
  have items: "verify_items (t2\<lparr>p_chainId := 1\<rparr>) = verify_items (t1\<lparr>p_chainId := 1\<rparr>)"
    using len assms(3) sub by (rule verify_items_ignore)
  have v: "tx_v t2 = tx_v t1" and r: "tx_r t2 = tx_r t1" and s: "tx_s t2 = tx_s t1"
    using len by (simp_all add: assms(3))
  have hs_eq: "p_homestead t2 = p_homestead t1" using hs by simp
  have res: "fst (verifySignature c t2) = fst (verifySignature c t1)"
    unfolding fst_verifySignature items v r s hs_eq by (rule refl)
  have key: "p_senderPubKey (snd (verifySignature c t2)) = p_senderPubKey (snd (verifySignature c t1))"
    unfolding key_verifySignature items v r s hs_eq assms(4) by (rule refl)
  have addr: "fst (getSenderAddress c t2) = fst (getSenderAddress c t1)"
    unfolding fst_getSenderAddress fst_getSenderPublicKey res key assms(4,5) by (rule refl)
  show ?thesis using items res key addr by simp
qed

theorem verification_ignores_action_subAddress_witness:
  "tx_inv (mk_tx ex_raw 1) \<and> tx_inv (mk_tx ex_raw2 1) \<and>
   this_raw (mk_tx ex_raw2 1) = (this_raw (mk_tx ex_raw 1))[6 := [1], 11 := [0x41]] \<and>
   tx_action (mk_tx ex_raw2 1) \<noteq> tx_action (mk_tx ex_raw 1) \<and>
   tx_subAddress (mk_tx ex_raw2 1) \<noteq> tx_subAddress (mk_tx ex_raw 1) \<and>
   fst (verifySignature demo_crypto (mk_tx ex_raw2 1)) =
     fst (verifySignature demo_crypto (mk_tx ex_raw 1)) \<and>
   fst (getSenderAddress demo_crypto (mk_tx ex_raw2 1)) =
     fst (getSenderAddress demo_crypto (mk_tx ex_raw 1))"
proof -
  have inv2: "tx_inv (mk_tx ex_raw2 1)"
    by (rule tx_inv_mk_tx) (simp add: ex_raw2_def)
  have upd: "this_raw (mk_tx ex_raw2 1) = (this_raw (mk_tx ex_raw 1))[6 := [1], 11 := [0x41]]"
    by (simp add: ex_raw_def ex_raw2_def list_update_Cons_numeral)
  have k: "p_senderPubKey (mk_tx ex_raw2 1) = p_senderPubKey (mk_tx ex_raw 1)"
    and f: "p_from (mk_tx ex_raw2 1) = p_from (mk_tx ex_raw 1)"
    by (simp_all add: mk_tx_def)
  have d: "tx_action (mk_tx ex_raw2 1) \<noteq> tx_action (mk_tx ex_raw 1)"
     "tx_subAddress (mk_tx ex_raw2 1) \<noteq> tx_subAddress (mk_tx ex_raw 1)"
    by (simp_all add: ex_raw_def ex_raw2_def)
  show ?thesis
    using verification_ignores_action_subAddress [OF ex_inv inv2 upd k f, of demo_crypto]
      ex_inv inv2 upd d by simp
qed

lemma verifySignature_returns:
  assumes "tx_inv t"
  shows "fst (verifySignature c t) = Inr True \<or> fst (verifySignature c t) = Inr False"
proof -
  from assms have sub: "p_subAddress (t\<lparr>p_chainId := 1\<rparr>) = None"
    by (simp add: tx_inv_def)
  show ?thesis
    unfolding fst_verifySignature rlphash_verify_items [OF sub]
    by (simp split: sum.splits)
qed

lemma getBaseFee_frame:
  assumes "this_raw t' = this_raw t" and "p_homestead t' = p_homestead t"
  shows "getBaseFee f t' = getBaseFee f t"
  using assms by (simp add: getBaseFee_def getDataFee_def toCreationAddress_def)

lemma fst_validate:
  "fst (validate c f stringError t) =
     (case fst (verifySignature c t) of
        Inl e \<Rightarrow> Inl e
      | Inr ok \<Rightarrow>
          Inr (let errors =
                     (if ok then [] else [''Invalid Signature'']) @
                     (if getBaseFee f t \<le> bn (tx_gasLimit t) then []
                      else [''gas limit is too low. Need at least '' @ show_nat (getBaseFee f t)])
               in if stringError = None \<or> stringError = Some False
                  then VBool (errors = []) else VStr (join errors)))"
proof -
  have fee: "getBaseFee f (snd (verifySignature c t)) = getBaseFee f t"
    using verifySignature_frame [of c t] by (intro getBaseFee_frame) simp_all
  have lim: "tx_gasLimit (snd (verifySignature c t)) = tx_gasLimit t"
    using verifySignature_frame [of c t] by simp
  obtain r t1 where v: "verifySignature c t = (r, t1)" by (cases "verifySignature c t")
  from fee lim v have fee1: "getBaseFee f t1 = getBaseFee f t"
    and lim1: "tx_gasLimit t1 = tx_gasLimit t" by simp_all
  show ?thesis
    by (cases r) (auto simp: validate_def v fee1 lim1 Let_def not_le)
qed

section \<open>Validation\<close>

text \<open>
  Claim C8. \<open>validate(stringError)\<close> returns \<open>true\<close>, or the empty text when
  \<open>stringError\<close> is given and not \<open>false\<close>, exactly when \<open>verifySignature\<close> returns
  \<open>true\<close> and \<open>gasLimit\<close> is at least \<open>getBaseFee()\<close>. Otherwise it returns \<open>false\<close>,
  or the messages of the failed checks joined by a blank, which is not the empty text.
\<close>

theorem validate_result:
  assumes "tx_inv t"
  shows "(let ok = (fst (verifySignature c t) = Inr True);
              enough = (getBaseFee f t \<le> bn (tx_gasLimit t));
              errors = (if ok then [] else [''Invalid Signature'']) @
                       (if enough then []
                        else [''gas limit is too low. Need at least '' @ show_nat (getBaseFee f t)])
          in fst (validate c f stringError t) =
               Inr (if stringError = None \<or> stringError = Some False
                    then VBool (ok \<and> enough) else VStr (join errors)) \<and>
             ((join errors = []) = (ok \<and> enough)) \<and>
             ((fst (validate c f stringError t) = Inr (VBool True) \<or>
               fst (validate c f stringError t) = Inr (VStr [])) = (ok \<and> enough)))"
proof -
  from verifySignature_returns [OF assms, of c]
  consider (yes) "fst (verifySignature c t) = Inr True" | (no) "fst (verifySignature c t) = Inr False"
    by blast
  then show ?thesis
  proof cases
    case yes
    then show ?thesis by (simp add: fst_validate Let_def)
  next
    case no
    then show ?thesis by (simp add: fst_validate Let_def)
  qed
qed

theorem validate_result_witness:
  "tx_inv (mk_tx ex_raw 1) \<and>
   fst (verifySignature demo_crypto (mk_tx ex_raw 1)) = Inr False \<and>
   getBaseFee demo_fees (mk_tx ex_raw 1) = 21072 \<and> bn (tx_gasLimit (mk_tx ex_raw 1)) = 100000 \<and>
   fst (validate demo_crypto demo_fees None (mk_tx ex_raw 1)) = Inr (VBool False) \<and>
   fst (validate demo_crypto demo_fees (Some True) (mk_tx ex_raw 1)) =
     Inr (VStr ''Invalid Signature'')"
proof -
  have sub: "p_subAddress ((mk_tx ex_raw 1)\<lparr>p_chainId := 1\<rparr>) = None"
    by (simp add: mk_tx_def)
  have v: "fst (verifySignature demo_crypto (mk_tx ex_raw 1)) = Inr False"
    unfolding fst_verifySignature rlphash_verify_items [OF sub]
    by (simp add: ex_raw_def bufferToInt_def bn_def ecrecover_def N_DIV_2_def)
  have fee: "getBaseFee demo_fees (mk_tx ex_raw 1) = 21072"
    by (simp add: getBaseFee_def getDataFee_def toCreationAddress_def demo_fees_def ex_raw_def
          ex_to_def hex_byte_def)
  have lim: "bn (tx_gasLimit (mk_tx ex_raw 1)) = 100000"
    by (simp add: ex_raw_def bn_def)
  show ?thesis
    using validate_result [OF ex_inv, of demo_crypto demo_fees None]
      validate_result [OF ex_inv, of demo_crypto demo_fees "Some True"] ex_inv v fee lim
    by (simp add: Let_def)
qed

section \<open>Signing\<close>

lemma set_r_Buf:
  "set_r (Buf (take 32 b)) t =
     Inr (t\<lparr>arrays := (arrays t)(raw t := array_store (this_raw t) 14 (stripZeros (take 32 b)))\<rparr>)"
proof -
  have "length (stripZeros (take 32 b)) \<le> 32"
    using length_stripZeros [of "take 32 b"] by simp
  then show ?thesis
    by (simp add: setter_def canonical_def field_list_def mk_field_def)
qed

lemma set_s_Buf:
  "set_s (Buf (take 32 b)) t =
     Inr (t\<lparr>arrays := (arrays t)(raw t := array_store (this_raw t) 15 (stripZeros (take 32 b)))\<rparr>)"
proof -
  have "length (stripZeros (take 32 b)) \<le> 32"
    using length_stripZeros [of "take 32 b"] by simp
  then show ?thesis
    by (simp add: setter_def canonical_def field_list_def mk_field_def)
qed

lemma hash_items_signed:
  "fst (hash_items (Some True) chainID t) = Inr (signing_raw chainID (this_raw t)) \<and>
   this_raw (snd (hash_items (Some True) chainID t)) = signing_raw chainID (this_raw t) \<and>
   same_frame t (snd (hash_items (Some True) chainID t))"
  by (cases chainID)
     (simp_all add: hash_items_def signing_raw_def set_v_Num same_frame_def)

lemma fst_hash_signed:
  "fst (hash c (Some True) chainID t) =
     Inr (keccak256 c (rlp_list (signing_raw chainID (this_raw t))))"
  using hash_items_signed [of chainID t] by (simp add: fst_hash rlphash_Buf)

lemma same_frame_store: "same_frame t (t\<lparr>arrays := a\<rparr>)"
  by (simp add: same_frame_def)

lemma same_frame_trans: "same_frame a b \<Longrightarrow> same_frame b d \<Longrightarrow> same_frame a d"
  by (simp add: same_frame_def)

lemma sign_run:
  assumes "secp_sign c (keccak256 c (rlp_list (signing_raw chainID (this_raw t)))) privateKey =
             Some (signature, recovery)"
  shows "fst (sign c privateKey chainID t) = Inr () \<and>
         this_raw (snd (sign c privateKey chainID t)) =
           array_store (array_store (array_store (signing_raw chainID (this_raw t)) 14
              (stripZeros (take 32 signature))) 15
              (stripZeros (take 32 (drop 32 signature)))) 13
              (intToBuffer (signed_v chainID recovery)) \<and>
         same_frame t (snd (sign c privateKey chainID t))"
proof -
  obtain r0 t1 where hi: "hash_items (Some True) chainID t = (r0, t1)"
    by (cases "hash_items (Some True) chainID t")
  with hash_items_signed [of chainID t]
  have r0: "r0 = Inr (signing_raw chainID (this_raw t))"
    and raw1: "this_raw t1 = signing_raw chainID (this_raw t)"
    and fr1: "same_frame t t1" by simp_all
  have h: "hash c (Some True) chainID t =
             (Inr (keccak256 c (rlp_list (signing_raw chainID (this_raw t)))), t1)"
    by (simp add: hash_def hi r0 rlphash_Buf)
  have v: "(case chainID of None \<Rightarrow> recovery + 27
            | Some n \<Rightarrow> if 0 < n then recovery + 27 + (n * 2 + 8) else recovery + 27)
           = signed_v chainID recovery"
    by (simp add: signed_v_def)
  let ?r = "stripZeros (take 32 signature)"
  let ?s = "stripZeros (take 32 (drop 32 signature))"
  obtain t2 where s2: "set_r (Buf (take 32 signature)) t1 = Inr t2"
    and raw2: "this_raw t2 = array_store (this_raw t1) 14 ?r" and fr2: "same_frame t1 t2"
    using set_r_Buf [of signature t1] by (simp add: same_frame_def)
  obtain t3 where s3: "set_s (Buf (take 32 (drop 32 signature))) t2 = Inr t3"
    and raw3: "this_raw t3 = array_store (this_raw t2) 15 ?s" and fr3: "same_frame t2 t3"
    using set_s_Buf [of "drop 32 signature" t2] by (simp add: same_frame_def)
  obtain t4 where s4: "set_v (Num (signed_v chainID recovery)) t3 = Inr t4"
    and raw4: "this_raw t4 = array_store (this_raw t3) 13 (intToBuffer (signed_v chainID recovery))"
    and fr4: "same_frame t3 t4"
    using set_v_Num [of "signed_v chainID recovery" t3] by (simp add: same_frame_def)
  have run: "sign c privateKey chainID t = (Inr (), t4)"
    unfolding sign_def h by (simp add: ecsign_def assms v s2 s3 s4)
  have fr: "same_frame t t4"
    using fr1 fr2 fr3 fr4 by (simp add: same_frame_def)
  show ?thesis
    unfolding run fst_conv snd_conv raw4 raw3 raw2 raw1
    using fr by simp
qed

lemma length_setLength [simp]: "length (setLength msg n) = n"
  by (simp add: setLength_def)

lemma length_xor_bytes [simp]: "length (xor_bytes a b) = min (length a) (length b)"
  by (simp add: xor_bytes_def)

lemma xor_bytes_involution:
  "length a = length b \<Longrightarrow> xor_bytes a (xor_bytes a b) = b"
proof (induction a b rule: list_induct2)
  case Nil
  then show ?case by (simp add: xor_bytes_def)
next
  case (Cons x xs y ys)
  have "xor x (xor x y) = y" by (simp add: xor.assoc [symmetric])
  with Cons show ?case by (simp add: xor_bytes_def)
qed

lemma bn_intToBuffer: "bn (intToBuffer n) = n"
  by (cases "n = 0") (simp_all add: intToBuffer_def bn_be_bytes bn_zero_Cons bn_Nil)

lemma signed_state:
  assumes inv: "tx_inv t"
    and sg: "secp_sign c (keccak256 c (rlp_list (signing_raw chainID (this_raw t)))) privateKey =
               Some (signature, recovery)"
  shows "fst (sign c privateKey chainID t) = Inr () \<and>
         tx_inv (snd (sign c privateKey chainID t)) \<and>
         p_from (snd (sign c privateKey chainID t)) = p_from t \<and>
         this_raw (snd (sign c privateKey chainID t)) =
           [tx_nonce t, tx_gasPrice t, tx_gasLimit t, tx_to t, tx_value t, tx_data t,
            tx_action t, tx_vote t, tx_nickname t, tx_asset t, tx_assetInfo t,
            tx_subAddress t, tx_abi t, intToBuffer (signed_v chainID recovery),
            stripZeros (take 32 signature), stripZeros (take 32 (drop 32 signature))]"
proof -
  from inv have len: "length (this_raw t) = 16" by (simp add: tx_inv_def)
  then obtain x0 x1 x2 x3 x4 x5 x6 x7 x8 x9 x10 x11 x12 x13 x14 x15
    where xs: "this_raw t = [x0, x1, x2, x3, x4, x5, x6, x7, x8, x9, x10, x11, x12, x13, x14, x15]"
    by (auto simp: eval_nat_numeral length_Suc_conv)
  have raw': "array_store (array_store (array_store (signing_raw chainID (this_raw t)) 14 r) 15 s) 13 v
        = [x0, x1, x2, x3, x4, x5, x6, x7, x8, x9, x10, x11, x12, v, r, s]" for r s v
    by (cases chainID)
       (simp_all add: xs signing_raw_def array_store_def list_update_Cons_numeral)
  from sign_run [OF sg]
  have ok: "fst (sign c privateKey chainID t) = Inr ()"
    and raw: "this_raw (snd (sign c privateKey chainID t)) =
           [x0, x1, x2, x3, x4, x5, x6, x7, x8, x9, x10, x11, x12,
            intToBuffer (signed_v chainID recovery),
            stripZeros (take 32 signature), stripZeros (take 32 (drop 32 signature))]"
    and fr: "same_frame t (snd (sign c privateKey chainID t))"
    by (simp_all add: raw')
  from inv fr raw have "tx_inv (snd (sign c privateKey chainID t))"
    by (simp add: tx_inv_def same_frame_def)
  moreover from fr have "p_from (snd (sign c privateKey chainID t)) = p_from t"
    by (simp add: same_frame_def)
  ultimately show ?thesis using ok raw by (simp add: xs)
qed

lemma signing_list:
  assumes "length xs = 16"
  shows "signing_raw (Some 1) xs =
           [xs ! 0, xs ! 1, xs ! 2, xs ! 3, xs ! 4, xs ! 5, xs ! 6, xs ! 7, xs ! 8, xs ! 9,
            xs ! 10, xs ! 11, xs ! 12, intToBuffer 1, xs ! 14, xs ! 15]"
proof -
  from assms obtain x0 x1 x2 x3 x4 x5 x6 x7 x8 x9 x10 x11 x12 x13 x14 x15
    where "xs = [x0, x1, x2, x3, x4, x5, x6, x7, x8, x9, x10, x11, x12, x13, x14, x15]"
    by (auto simp: eval_nat_numeral length_Suc_conv)
  then show ?thesis
    by (simp add: signing_raw_def array_store_def list_update_Cons_numeral)
qed

lemma sign_verify_core:
  assumes inv: "tx_inv t"
    and unset: "tx_action t = []" "tx_subAddress t = []" "tx_r t = []" "tx_s t = []"
    and nofrom: "p_from t = None"
    and h: "fst (hash c (Some True) (Some 1) t) = Inr msgHash"
    and sg: "secp_sign c msgHash privateKey = Some (signature, recovery)"
    and len: "length signature = 64" and rec: "recovery \<le> 1"
    and lows: "bn (drop 32 signature) \<le> secp256k1n div 2"
    and rc: "secp_recover c msgHash signature recovery = Some (secp_public c privateKey)"
    and pub: "length (secp_public c privateKey) = 64"
  shows "fst (sign c privateKey (Some 1) t) = Inr () \<and>
         fst (verifySignature c (snd (sign c privateKey (Some 1) t))) = Inr True \<and>
         p_senderPubKey (snd (verifySignature c (snd (sign c privateKey (Some 1) t)))) =
           Some (secp_public c privateKey) \<and>
         p_from (snd (sign c privateKey (Some 1) t)) = None \<and>
         fst (getSenderAddress c (snd (verifySignature c (snd (sign c privateKey (Some 1) t))))) =
           publicToAddress c (secp_public c privateKey)"
proof -
  define t1 where "t1 = snd (sign c privateKey (Some 1) t)"
  define t2 where "t2 = snd (verifySignature c t1)"
  from inv have l16: "length (this_raw t) = 16" by (simp add: tx_inv_def)
  have mh: "msgHash = keccak256 c (rlp_list (signing_raw (Some 1) (this_raw t)))"
    using h by (simp add: fst_hash_signed)
  from sg have sg': "secp_sign c (keccak256 c (rlp_list (signing_raw (Some 1) (this_raw t))))
                       privateKey = Some (signature, recovery)"
    by (simp add: mh)
  from signed_state [OF inv sg']
  have ok: "fst (sign c privateKey (Some 1) t) = Inr ()"
    and inv1: "tx_inv t1" and from1: "p_from t1 = p_from t"
    and raw1: "this_raw t1 =
           [tx_nonce t, tx_gasPrice t, tx_gasLimit t, tx_to t, tx_value t, tx_data t,
            tx_action t, tx_vote t, tx_nickname t, tx_asset t, tx_assetInfo t,
            tx_subAddress t, tx_abi t, intToBuffer (signed_v (Some 1) recovery),
            stripZeros (take 32 signature), stripZeros (take 32 (drop 32 signature))]"
    by (simp_all add: t1_def)
  from inv1 have sub1: "p_subAddress (t1\<lparr>p_chainId := 1\<rparr>) = None" and hs1: "p_homestead t1"
    by (simp_all add: tx_inv_def)
  have hash1: "rlphash c (verify_items (t1\<lparr>p_chainId := 1\<rparr>)) = Inr msgHash"
    unfolding rlphash_verify_items [OF sub1] mh signing_list [OF l16]
    by (simp add: raw1 unset)
  have s1: "bn (tx_s t1) = bn (drop 32 signature)"
    using len by (simp add: raw1 bn_stripZeros)
  have v1: "bufferToInt (tx_v t1) = Inr (recovery + 37)"
    using rec by (simp add: raw1 signed_v_def bufferToInt_def bn_intToBuffer)
  have r32: "setLength (stripZeros (take 32 signature)) 32 = take 32 signature"
    using setLength_stripZeros [of "take 32 signature"] len by simp
  have s32: "setLength (stripZeros (take 32 (drop 32 signature))) 32 = drop 32 signature"
    using setLength_stripZeros [of "take 32 (drop 32 signature)"] len by simp
  have rec1: "ecrecover c msgHash v (tx_r t1) (tx_s t1) = Inr (secp_public c privateKey)"
    if "v = int recovery + 27" for v
  proof -
    from rec have "recovery = 0 \<or> recovery = 1" by auto
    then show ?thesis using that by (auto simp: ecrecover_def raw1 r32 s32 rc Let_def)
  qed
  have low: "\<not> N_DIV_2 < bn (tx_s t1)"
    using lows by (simp add: s1 N_DIV_2_half)
  have ver: "fst (verifySignature c t1) = Inr True"
    unfolding fst_verifySignature hash1 by (simp add: low v1 rec1)
  have key2: "p_senderPubKey t2 = Some (secp_public c privateKey)"
    unfolding t2_def key_verifySignature hash1 by (simp add: low v1 rec1)
  have from2: "p_from t2 = None"
    using verifySignature_frame [of c t1] by (simp add: from1 nofrom t2_def)
  have nonempty: "secp_public c privateKey \<noteq> []" using pub by auto
  have addr: "fst (getSenderAddress c t2) = publicToAddress c (secp_public c privateKey)"
    by (simp add: fst_getSenderAddress fst_getSenderPublicKey from2 key2 nonempty)
  show ?thesis using ok ver addr key2 from1 nofrom unfolding t2_def t1_def by simp
qed

text \<open>
  Claim C1, amended. Take an object whose \<open>action\<close>, \<open>subAddress\<close>, \<open>r\<close> and \<open>s\<close>
  are empty and whose sender address has not been read, and sign it for chain id 1. If
  the primitives behave as ECDSA does on the hash that is signed (a 64-byte signature,
  recovery id 0 or 1, \<open>s\<close> at most half the order of the curve, recovery gives the
  signer's 64-byte public key), then \<open>sign\<close> returns, \<open>verifySignature\<close> returns
  \<open>true\<close> and \<open>getSenderAddress\<close> is the address of that public key.
\<close>

theorem sign_then_verify:
  assumes inv: "tx_inv t"
    and unset: "tx_action t = []" "tx_subAddress t = []" "tx_r t = []" "tx_s t = []"
    and nofrom: "p_from t = None"
    and h: "fst (hash c (Some True) (Some 1) t) = Inr msgHash"
    and sg: "secp_sign c msgHash privateKey = Some (signature, recovery)"
    and len: "length signature = 64" and rec: "recovery \<le> 1"
    and lows: "bn (drop 32 signature) \<le> secp256k1n div 2"
    and rc: "secp_recover c msgHash signature recovery = Some (secp_public c privateKey)"
    and pub: "length (secp_public c privateKey) = 64"
  shows "fst (sign c privateKey (Some 1) t) = Inr () \<and>
         fst (verifySignature c (snd (sign c privateKey (Some 1) t))) = Inr True \<and>
         fst (getSenderAddress c (snd (verifySignature c (snd (sign c privateKey (Some 1) t))))) =
           publicToAddress c (secp_public c privateKey)"
  using sign_verify_core [OF assms] by simp

lemma ex0_data_run: "Transaction ex0_data = Inr (mk_tx ex_raw 0)"
  by (simp add: Transaction_eq defineProperties_eq data_assignments_def length_field_list upt16
        ex0_data_def eval_simps blank_def default_raw_def mk_tx_def ex_raw_def ex_to_def)

lemma ex0_inv: "tx_inv (mk_tx ex_raw 0)"
  by (rule tx_inv_mk_tx) (simp add: ex_raw_def)

lemma length_ex_key: "length ex_key = 32"
  by (simp add: ex_key_def)

lemma demo_sign:
  "secp_sign demo_crypto h k =
     Some (xor_bytes (setLength h 32) (setLength k 32) @ setLength [1] 32, 0)"
  by (simp add: demo_crypto_def)

lemma demo_recover:
  "secp_recover demo_crypto h (xor_bytes (setLength h 32) (setLength k 32) @ setLength [1] 32) 0 =
     Some (secp_public demo_crypto k)"
  by (simp add: demo_crypto_def xor_bytes_involution)

lemma bn_one_padded: "bn (setLength [1] 32) = 1"
proof -
  have "setLength [1] 32 = replicate 31 0 @ [1]" by (simp add: setLength_def)
  moreover have "bn (replicate 31 0 @ [1]) = bn [1]" by (rule bn_replicate_zero)
  moreover have "bn [1] = 1" by (simp add: bn_def)
  ultimately show ?thesis by simp
qed

text \<open>
  For every other chain id, given or not, the recovery id that \<open>verifySignature\<close>
  computes from \<open>v\<close> is neither 0 nor 1, and \<open>verifySignature\<close> returns \<open>false\<close>.
\<close>

lemma sign_other_chain:
  assumes inv: "tx_inv t"
    and sg: "secp_sign c (keccak256 c (rlp_list (signing_raw chainID (this_raw t)))) privateKey =
               Some (signature, recovery)"
    and rec: "recovery \<le> 1" and other: "chainID \<noteq> Some 1"
  shows "fst (verifySignature c (snd (sign c privateKey chainID t))) = Inr False"
proof -
  define t1 where "t1 = snd (sign c privateKey chainID t)"
  from signed_state [OF inv sg]
  have inv1: "tx_inv t1" and v1: "tx_v t1 = intToBuffer (signed_v chainID recovery)"
    by (simp_all add: t1_def)
  from inv1 have sub1: "p_subAddress (t1\<lparr>p_chainId := 1\<rparr>) = None"
    by (simp add: tx_inv_def)
  have bad: "int (signed_v chainID recovery) - 10 - 27 \<noteq> 0 \<and>
             int (signed_v chainID recovery) - 10 - 27 \<noteq> 1"
  proof (cases chainID)
    case None
    then show ?thesis using rec by (simp add: signed_v_def)
  next
    case (Some n)
    with other have "n = 0 \<or> 2 \<le> n" by auto
    then show ?thesis using rec Some by (auto simp: signed_v_def)
  qed
  have rej: "ecrecover c m (int (signed_v chainID recovery) - 10) r s = Inl InvalidSignature"
    for m r s
    using bad by (simp add: ecrecover_def Let_def)
  have "fst (verifySignature c t1) = Inr False"
    unfolding fst_verifySignature rlphash_verify_items [OF sub1]
    by (auto simp: v1 bufferToInt_def bn_intToBuffer rej split: sum.splits)
  then show ?thesis by (simp add: t1_def)
qed

theorem sign_then_verify_witness:
  "tx_inv (mk_tx ex_raw 1) \<and> tx_action (mk_tx ex_raw 1) = [] \<and>
   tx_subAddress (mk_tx ex_raw 1) = [] \<and> tx_r (mk_tx ex_raw 1) = [] \<and>
   tx_s (mk_tx ex_raw 1) = [] \<and> p_from (mk_tx ex_raw 1) = None \<and>
   fst (sign demo_crypto ex_key (Some 1) (mk_tx ex_raw 1)) = Inr () \<and>
   fst (verifySignature demo_crypto (snd (sign demo_crypto ex_key (Some 1) (mk_tx ex_raw 1)))) =
     Inr True \<and>
   fst (getSenderAddress demo_crypto
         (snd (verifySignature demo_crypto
                (snd (sign demo_crypto ex_key (Some 1) (mk_tx ex_raw 1)))))) =
     publicToAddress demo_crypto (secp_public demo_crypto ex_key)"
proof -
  define h where "h = keccak256 demo_crypto (rlp_list (signing_raw (Some 1) (this_raw (mk_tx ex_raw 1))))"
  define sig where "sig = xor_bytes (setLength h 32) (setLength ex_key 32) @ setLength [1] 32"
  have unset: "tx_action (mk_tx ex_raw 1) = []" "tx_subAddress (mk_tx ex_raw 1) = []"
    "tx_r (mk_tx ex_raw 1) = []" "tx_s (mk_tx ex_raw 1) = []"
    by (simp_all add: ex_raw_def)
  have nofrom: "p_from (mk_tx ex_raw 1) = None" by (simp add: mk_tx_def)
  have hh: "fst (hash demo_crypto (Some True) (Some 1) (mk_tx ex_raw 1)) = Inr h"
    unfolding h_def by (rule fst_hash_signed)
  have sg: "secp_sign demo_crypto h ex_key = Some (sig, 0)"
    unfolding sig_def by (rule demo_sign)
  have len: "length sig = 64" by (simp add: sig_def)
  have lows: "bn (drop 32 sig) \<le> secp256k1n div 2"
    by (simp add: sig_def bn_one_padded secp256k1n_def)
  have rc: "secp_recover demo_crypto h sig 0 = Some (secp_public demo_crypto ex_key)"
    unfolding sig_def by (rule demo_recover)
  have pub: "length (secp_public demo_crypto ex_key) = 64"
    by (simp add: demo_crypto_def)
  show ?thesis
    using sign_then_verify [OF ex_inv unset nofrom hh sg len _ lows rc pub] ex_inv unset nofrom
    by simp
qed

text \<open>
  Claim C1 as stated fails for chain id 0: \<open>sign\<close> assigns \<open>v = 27\<close>, and
  \<open>verifySignature\<close>, which takes the chain id to be 1, subtracts 10 and rejects the
  recovery id \<open>-10\<close>. The failure is in the arithmetic on \<open>v\<close>, whatever the
  primitives are (\<open>sign_other_chain\<close>).
\<close>

theorem sign_then_verify_counterexample:
  "Transaction ex0_data = Inr (mk_tx ex_raw 0) \<and>
   fst (sign demo_crypto ex_key (Some 0) (mk_tx ex_raw 0)) = Inr () \<and>
   fst (verifySignature demo_crypto (snd (sign demo_crypto ex_key (Some 0) (mk_tx ex_raw 0)))) =
     Inr False"
proof -
  have sg: "secp_sign demo_crypto
              (keccak256 demo_crypto (rlp_list (signing_raw (Some 0) (this_raw (mk_tx ex_raw 0)))))
              ex_key =
            Some (xor_bytes
                    (setLength (keccak256 demo_crypto
                       (rlp_list (signing_raw (Some 0) (this_raw (mk_tx ex_raw 0))))) 32)
                    (setLength ex_key 32) @ setLength [1] 32, 0)"
    by (rule demo_sign)
  have "fst (sign demo_crypto ex_key (Some 0) (mk_tx ex_raw 0)) = Inr ()"
    using signed_state [OF ex0_inv sg] by simp
  moreover have "fst (verifySignature demo_crypto
                        (snd (sign demo_crypto ex_key (Some 0) (mk_tx ex_raw 0)))) = Inr False"
    by (rule sign_other_chain [OF ex0_inv sg]) simp_all
  ultimately show ?thesis using ex0_data_run by simp
qed

section \<open>The depth bound of \<open>RLP.decode\<close>\<close>

text \<open>
  Every call of \<open>_decode\<close> consumes at least one byte, and the calls nest and follow each
  other at offsets that never go back. So the bound that \<open>RLP_decode\<close> passes is never
  used up: \<open>Unmodelled\<close> is not a value of \<open>RLP_decode\<close>.
\<close>

lemma decode_head_consumed:
  assumes "decode_head data offset = Inr (is_array, start, len, consumed)"
  shows "1 \<le> consumed \<and> offset < length data \<and> (is_array \<longrightarrow> offset < start)"
  using assms by (auto simp: decode_head_def Let_def split: if_splits)

lemma decode_at_consumed:
  "decode_at k data offset = Inr (r, consumed) \<Longrightarrow> 1 \<le> consumed \<and> offset < length data"
proof (cases k)
  case 0
  assume "decode_at k data offset = Inr (r, consumed)"
  with 0 show ?thesis by simp
next
  case (Suc j)
  assume "decode_at k data offset = Inr (r, consumed)"
  with Suc show ?thesis
    by (auto split: sum.splits prod.splits if_splits dest: decode_head_consumed)
qed

lemma decode_fuel:
  "(2 * (length data - offset) + 1 \<le> k \<longrightarrow> decode_at k data offset \<noteq> Inl Unmodelled) \<and>
   (2 * (length data - childOffset) + 2 \<le> k \<longrightarrow>
      decodeChildren k data stop childOffset \<noteq> Inl Unmodelled)"
proof (induction k arbitrary: offset childOffset stop)
  case 0
  then show ?case by simp
next
  case (Suc k)
  have at: "decode_at (Suc k) data offset \<noteq> Inl Unmodelled"
    if fuel: "2 * (length data - offset) + 1 \<le> Suc k"
  proof (cases "decode_head data offset")
    case (Inl e)
    then have "e = InvalidRlp"
      by (auto simp: decode_head_def Let_def split: if_splits)
    with Inl show ?thesis by simp
  next
    case (Inr h)
    obtain is_array start len consumed where h: "h = (is_array, start, len, consumed)"
      by (cases h)
    from Inr h have facts: "offset < length data" "is_array \<longrightarrow> offset < start"
      using decode_head_consumed by blast+
    show ?thesis
    proof (cases is_array)
      case True
      with facts have "2 * (length data - start) + 2 \<le> k" using fuel by simp
      with Suc.IH have "decodeChildren k data (start + len) start \<noteq> Inl Unmodelled" by blast
      with Inr h True show ?thesis by (auto split: sum.splits)
    next
      case False
      with Inr h show ?thesis by simp
    qed
  qed
  have children: "decodeChildren (Suc k) data stop childOffset \<noteq> Inl Unmodelled"
    if fuel: "2 * (length data - childOffset) + 2 \<le> Suc k"
  proof (cases "childOffset < stop")
    case False
    then show ?thesis by simp
  next
    case True
    from fuel have "2 * (length data - childOffset) + 1 \<le> k" by simp
    with Suc.IH have one: "decode_at k data childOffset \<noteq> Inl Unmodelled" by blast
    show ?thesis
    proof (cases "decode_at k data childOffset")
      case (Inl e)
      with one True show ?thesis by auto
    next
      case (Inr rc)
      obtain r consumed where rc: "rc = (r, consumed)" by (cases rc)
      from Inr rc have "1 \<le> consumed \<and> childOffset < length data"
        using decode_at_consumed by blast
      with fuel have "2 * (length data - (childOffset + consumed)) + 2 \<le> k" by arith
      with Suc.IH
      have "decodeChildren k data stop (childOffset + consumed) \<noteq> Inl Unmodelled" by blast
      with Inr rc True show ?thesis by (auto split: sum.splits)
    qed
  qed
  from at children show ?case by blast
qed

lemma RLP_decode_fuel: "RLP_decode data \<noteq> Inl Unmodelled"
proof -
  have "decode_at (2 * length data + 2) data 0 \<noteq> Inl Unmodelled"
    using decode_fuel [of data 0 "2 * length data + 2"] by simp
  then show ?thesis
    by (auto simp: RLP_decode_def split: sum.splits prod.splits)
qed

section \<open>Decoding\<close>

lemma decode_at_numeral:
  "decode_at (numeral k) data offset =
     (case decode_head data offset of
        Inl e \<Rightarrow> Inl e
      | Inr (is_array, start, len, consumed) \<Rightarrow>
          if is_array then
            (case decodeChildren (pred_numeral k) data (start + len) start of
               Inl e \<Rightarrow> Inl e
             | Inr rs \<Rightarrow> Inr (RList rs, consumed))
          else Inr (RStr (hexlify (take len (drop start data))), consumed))"
  by (simp add: numeral_eq_Suc)

lemma decodeChildren_numeral:
  "decodeChildren (numeral k) data stop childOffset =
     (if childOffset < stop then
        (case decode_at (pred_numeral k) data childOffset of
           Inl e \<Rightarrow> Inl e
         | Inr (r, consumed) \<Rightarrow>
             if stop < childOffset + consumed then Inl InvalidRlp
             else
               (case decodeChildren (pred_numeral k) data stop (childOffset + consumed) of
                  Inl e \<Rightarrow> Inl e
                | Inr rs \<Rightarrow> Inr (r # rs)))
      else Inr [])"
  by (simp add: numeral_eq_Suc)

lemma replicate_numeral: "replicate (numeral k) x = x # replicate (pred_numeral k) x"
  by (simp add: numeral_eq_Suc)

lemmas decode_eval = RLP_decode_def decode_at_numeral decodeChildren_numeral decode_head_def
  unarrayifyInteger_def bn_def hexlify_def hex_byte_def hexdigit_def Let_def

lemma cc_decode: "RLP_decode cc_wire = Inr (RList cc_decoded)"
  by (simp add: cc_wire_def cc_decoded_def decode_eval)

lemma cc_inv: "tx_inv (mk_tx cc_raw 1)"
  by (rule tx_inv_mk_tx) (simp add: cc_raw_def)

lemmas keccak_eval = demo_keccak_def setLength_def be_bytes_0

lemma cc_hash:
  "keccak256 demo_crypto (rlp_list (signing_raw (Some 1) (this_raw (mk_tx cc_raw 1)))) =
     replicate 24 0 @ [217, 237, 108, 173, 208, 17, 17, 212]"
  by (simp add: demo_crypto_def signing_raw_def cc_raw_def array_store_def
        list_update_Cons_numeral rlp_list_def encode_buffer_def encodeLength_def intToBuffer_def
        keccak_eval)

lemma cc_sign:
  "secp_sign demo_crypto
     (keccak256 demo_crypto (rlp_list (signing_raw (Some 1) (this_raw (mk_tx cc_raw 1))))) ex_key =
   Some (replicate 24 0 @ [217, 237, 108, 173, 208, 17, 17, 209] @ replicate 31 0 @ [1], 0)"
  unfolding cc_hash
  by (simp add: demo_crypto_def xor_bytes_def setLength_def ex_key_def replicate_numeral)

lemma cc_signed_raw:
  "fst (sign demo_crypto ex_key (Some 1) (mk_tx cc_raw 1)) = Inr () \<and>
   this_raw (snd (sign demo_crypto ex_key (Some 1) (mk_tx cc_raw 1))) = cc_signed"
  using signed_state [OF cc_inv cc_sign]
  by (simp add: cc_raw_def cc_signed_def signed_v_def intToBuffer_def stripZeros_def
        replicate_numeral be_bytes_0)

lemma cc_serialize:
  "serialize (snd (sign demo_crypto ex_key (Some 1) (mk_tx cc_raw 1))) = Inr cc_wire"
proof -
  have raw: "this_raw (snd (sign demo_crypto ex_key (Some 1) (mk_tx cc_raw 1))) = cc_signed"
    using cc_signed_raw by blast
  show ?thesis
    unfolding serialize_def raw rlp_encode_Buf
    by (simp add: cc_signed_def cc_wire_def rlp_list_def encode_buffer_def encodeLength_def)
qed

lemmas text_eval = as_text_def decode_subAddress_def decode_sub_def
  substring_from_def fromCharCode_def hexval_def from_hex_def substring2_def
  isHexPrefixed_def isHexString_def padToEven_def bigNumberify_def toNumber_def

lemmas rlp_items_eval = rlphash_def rlp_encode_def rlp_encode_item_def
  encode_buffer_def encodeLength_def intToBuffer_def

lemma cc_items:
  "rlphash demo_crypto (decode_items ''0x'' ''0x03e8'' ''0x0186a0'' ''0x'' ''0x'' ''0x'' ''0x'') =
     Inr ([0, 0, 0, 0, 0, 0, 0, 0, 0, 0, 0, 0, 0, 0, 0, 0, 0, 0, 0, 0, 0, 0, 0, 0, 163, 185, 142, 137, 16, 156, 204, 20])"
  by (simp add: decode_items_def rlp_items_eval text_eval demo_crypto_def keccak_eval
        replicate_numeral)

lemma cc_recover:
  "ecrecover demo_crypto ([0, 0, 0, 0, 0, 0, 0, 0, 0, 0, 0, 0, 0, 0, 0, 0, 0, 0, 0, 0, 0, 0, 0, 0, 163, 185, 142, 137, 16, 156, 204, 20]) 27
       [217, 237, 108, 173, 208, 17, 17, 209] [1] =
     Inr ([0, 0, 0, 0, 0, 0, 0, 0, 0, 0, 0, 0, 0, 0, 0, 0, 0, 0, 0, 0, 0, 0, 0, 0, 122, 84, 226, 36, 192, 141, 221, 197, 0, 0, 0, 0, 0, 0, 0, 0, 0, 0, 0, 0, 0, 0, 0, 0, 0, 0, 0, 0, 0, 0, 0, 0, 122, 84, 226, 36, 192, 141, 221, 197])"
  by (simp add: ecrecover_def demo_crypto_def setLength_def xor_bytes_def replicate_numeral)

lemma cc_address:
  "publicToAddress demo_crypto
       ([0, 0, 0, 0, 0, 0, 0, 0, 0, 0, 0, 0, 0, 0, 0, 0, 0, 0, 0, 0, 0, 0, 0, 0, 122, 84, 226, 36, 192, 141, 221, 197, 0, 0, 0, 0, 0, 0, 0, 0, 0, 0, 0, 0, 0, 0, 0, 0, 0, 0, 0, 0, 0, 0, 0, 0, 122, 84, 226, 36, 192, 141, 221, 197]) =
     Inr ([0, 0, 0, 0, 0, 0, 0, 0, 0, 0, 0, 0, 69, 56, 235, 7, 44, 21, 108, 105])"
  by (simp add: publicToAddress_def demo_crypto_def keccak_eval replicate_numeral)

lemma cc_from:
  "HexToAOA (hexlify ([0, 0, 0, 0, 0, 0, 0, 0, 0, 0, 0, 0, 69, 56, 235, 7, 44, 21, 108, 105])) =
     ''AOA0000000000000000000000004538eb072c156c69''"
  by (simp add: HexToAOA_def hexlify_def hex_byte_def hexdigit_def replicate_numeral)

lemma subAddress_empty: "decode_subAddress ''0x'' = [char_of (0 :: nat)]"
  by (simp add: decode_subAddress_def substring_from_def fromCharCode_def hexval_def)

lemma sub_empty: "decode_sub (decode_subAddress ''0x'') = ''0x''"
  by (simp add: subAddress_empty decode_sub_def)

lemma cc_fields: "decodeTx_fields demo_crypto cc_decoded = Inr cc_obj"
  unfolding decodeTx_fields_def cc_decoded_def
  apply (simp add: and_then_def as_text_def)
  apply (simp add: sub_empty cc_items)
  apply (simp add: bigNumberify_def toNumber_def isHexString_def isHexPrefixed_def hexval_def
           substring2_def padToEven_def bn_def from_hex_def cc_recover cc_address cc_from)
  apply (simp add: finish_transaction_def cc_obj_def HexToAOA_def subAddress_empty)
  done

lemma HexToAOA_not_0x: "HexToAOA address \<noteq> ''0x''"
proof (cases "take 2 address = ''0x''")
  case True
  then show ?thesis by (simp add: HexToAOA_def)
next
  case False
  then have "address \<noteq> ''0x''" by auto
  with False show ?thesis by (simp add: HexToAOA_def)
qed

lemma and_then_Inr: "and_then r f = Inr y \<longleftrightarrow> (\<exists>x. r = Inr x \<and> f x = Inr y)"
  by (cases r) (simp_all add: and_then_def)

lemma finish_transaction_to:
  "o_to obj = Some (HexToAOA raw_to) \<Longrightarrow> o_to (finish_transaction obj) = Some (HexToAOA raw_to)"
  by (simp add: finish_transaction_def HexToAOA_not_0x)

lemma decodeTx_fields_to:
  assumes "decodeTx_fields c xs = Inr obj"
  shows "\<exists>raw_to. as_text xs 3 = Inr raw_to \<and> o_to obj = Some (HexToAOA raw_to)"
  using assms unfolding decodeTx_fields_def and_then_Inr
  by (auto simp: finish_transaction_to)

text \<open>
  Claim C9 against the code. Whenever \<open>decodeTx\<close> returns, the object has a \<open>to\<close>
  field: \<open>to\<close> is \<open>HexToAOA(raw_to)\<close>, which never is the text \<open>0x\<close> that the
  deletion tests for. For a contract creation \<open>raw_to\<close> is \<open>0x\<close> and the field is the
  text \<open>AOA\<close>, where the claim has it omitted.
\<close>

theorem decodeTx_keeps_to:
  assumes "decodeTx c raw_tx = Inr obj"
  shows "o_to obj \<noteq> None"
proof -
  from assms obtain xs where "decodeTx_fields c xs = Inr obj"
    by (auto simp: decodeTx_def split: sum.splits rlpv.splits)
  then show ?thesis using decodeTx_fields_to by fastforce
qed

lemma cc_decodeTx: "decodeTx demo_crypto cc_wire = Inr cc_obj"
  by (simp add: decodeTx_def cc_decode cc_fields)

lemma cc_data_run: "Transaction cc_data = Inr (mk_tx cc_raw 1)"
  by (simp add: Transaction_eq defineProperties_eq data_assignments_def length_field_list upt16
        cc_data_def eval_simps blank_def default_raw_def mk_tx_def cc_raw_def)

theorem decodeTx_keeps_to_witness:
  "Transaction cc_data = Inr (mk_tx cc_raw 1) \<and> toCreationAddress (mk_tx cc_raw 1) \<and>
   serialize (snd (sign demo_crypto ex_key (Some 1) (mk_tx cc_raw 1))) = Inr cc_wire \<and>
   decodeTx demo_crypto cc_wire = Inr cc_obj \<and> o_to cc_obj = Some ''AOA''"
proof -
  have "o_to cc_obj \<noteq> None" using cc_decodeTx by (rule decodeTx_keeps_to)
  moreover have "o_to cc_obj = Some ''AOA''" by (simp add: cc_obj_def)
  moreover have "toCreationAddress (mk_tx cc_raw 1)"
    by (simp add: toCreationAddress_def cc_raw_def)
  ultimately show ?thesis using cc_data_run cc_serialize cc_decodeTx by simp
qed

lemma ex_hash:
  "keccak256 demo_crypto (rlp_list (signing_raw (Some 1) (this_raw (mk_tx ex_raw 1)))) =
     [0, 0, 0, 0, 0, 0, 0, 0, 0, 0, 0, 0, 0, 0, 0, 0, 0, 0, 0, 0, 0, 0, 0, 0, 105, 225, 48, 23, 71, 79, 194, 208]"
  by (simp add: demo_crypto_def signing_raw_def ex_raw_def ex_to_def array_store_def
        list_update_Cons_numeral rlp_list_def encode_buffer_def encodeLength_def intToBuffer_def
        keccak_eval replicate_numeral)

lemma ex_sign:
  "secp_sign demo_crypto
     (keccak256 demo_crypto (rlp_list (signing_raw (Some 1) (this_raw (mk_tx ex_raw 1))))) ex_key =
   Some ([0, 0, 0, 0, 0, 0, 0, 0, 0, 0, 0, 0, 0, 0, 0, 0, 0, 0, 0, 0, 0, 0, 0, 0, 105, 225, 48, 23, 71, 79, 194, 213, 0, 0, 0, 0, 0, 0, 0, 0, 0, 0, 0, 0, 0, 0, 0, 0, 0, 0, 0, 0, 0, 0, 0, 0, 0, 0, 0, 0, 0, 0, 0, 1], 0)"
  unfolding ex_hash
  by (simp add: demo_crypto_def xor_bytes_def setLength_def ex_key_def replicate_numeral)

lemma ex_signed_raw:
  "fst (sign demo_crypto ex_key (Some 1) (mk_tx ex_raw 1)) = Inr () \<and>
   this_raw (snd (sign demo_crypto ex_key (Some 1) (mk_tx ex_raw 1))) = ex_signed"
  using signed_state [OF ex_inv ex_sign]
  by (simp add: ex_raw_def ex_signed_def signed_v_def intToBuffer_def stripZeros_def be_bytes_0)

lemma ex_serialize:
  "serialize (snd (sign demo_crypto ex_key (Some 1) (mk_tx ex_raw 1))) = Inr ex_wire"
proof -
  have raw: "this_raw (snd (sign demo_crypto ex_key (Some 1) (mk_tx ex_raw 1))) = ex_signed"
    using ex_signed_raw by blast
  show ?thesis
    unfolding serialize_def raw rlp_encode_Buf
    by (simp add: ex_signed_def ex_to_def ex_wire_def rlp_list_def encode_buffer_def
          encodeLength_def)
qed

lemma ex_decode: "RLP_decode ex_wire = Inr (RList ex_decoded)"
  by (simp add: ex_wire_def ex_decoded_def decode_eval)

lemma ex_items:
  "rlphash demo_crypto
     (decode_items ''0x'' ''0x03e8'' ''0x0186a0'' ''0x112233445566778899aabbccddeeff0102030405''
        ''0x'' ''0x'' ''0x'') =
     Inr [0, 0, 0, 0, 0, 0, 0, 0, 0, 0, 0, 0, 0, 0, 0, 0, 0, 0, 0, 0, 0, 0, 0, 0, 65, 134, 167, 131, 49, 231, 228, 79]"
  by (simp add: decode_items_def rlp_items_eval text_eval demo_crypto_def keccak_eval
        replicate_numeral)

lemma ex_recover:
  "ecrecover demo_crypto [0, 0, 0, 0, 0, 0, 0, 0, 0, 0, 0, 0, 0, 0, 0, 0, 0, 0, 0, 0, 0, 0, 0, 0, 65, 134, 167, 131, 49, 231, 228, 79] 27
       [105, 225, 48, 23, 71, 79, 194, 213] [1] =
     Inr [0, 0, 0, 0, 0, 0, 0, 0, 0, 0, 0, 0, 0, 0, 0, 0, 0, 0, 0, 0, 0, 0, 0, 0, 40, 103, 151, 148, 118, 168, 38, 154, 0, 0, 0, 0, 0, 0, 0, 0, 0, 0, 0, 0, 0, 0, 0, 0, 0, 0, 0, 0, 0, 0, 0, 0, 40, 103, 151, 148, 118, 168, 38, 154]"
  by (simp add: ecrecover_def demo_crypto_def setLength_def xor_bytes_def replicate_numeral)

lemma ex_address:
  "publicToAddress demo_crypto
       [0, 0, 0, 0, 0, 0, 0, 0, 0, 0, 0, 0, 0, 0, 0, 0, 0, 0, 0, 0, 0, 0, 0, 0, 40, 103, 151, 148, 118, 168, 38, 154, 0, 0, 0, 0, 0, 0, 0, 0, 0, 0, 0, 0, 0, 0, 0, 0, 0, 0, 0, 0, 0, 0, 0, 0, 40, 103, 151, 148, 118, 168, 38, 154] =
     Inr [0, 0, 0, 0, 0, 0, 0, 0, 0, 0, 0, 0, 217, 215, 132, 217, 220, 112, 240, 11]"
  by (simp add: publicToAddress_def demo_crypto_def keccak_eval replicate_numeral)

lemma ex_from:
  "HexToAOA (hexlify [0, 0, 0, 0, 0, 0, 0, 0, 0, 0, 0, 0, 217, 215, 132, 217, 220, 112, 240, 11]) =
     ''AOA000000000000000000000000d9d784d9dc70f00b''"
  by (simp add: HexToAOA_def hexlify_def hex_byte_def hexdigit_def)

lemma ex_fields: "decodeTx_fields demo_crypto ex_decoded = Inr ex_obj"
  unfolding decodeTx_fields_def ex_decoded_def
  apply (simp add: and_then_def as_text_def)
  apply (simp add: sub_empty ex_items)
  apply (simp add: bigNumberify_def toNumber_def isHexString_def isHexPrefixed_def hexval_def
           substring2_def padToEven_def bn_def from_hex_def ex_recover ex_address ex_from)
  apply (simp add: finish_transaction_def ex_obj_def HexToAOA_def subAddress_empty)
  done

lemma ex_decodeTx: "decodeTx demo_crypto ex_wire = Inr ex_obj"
  by (simp add: decodeTx_def ex_decode ex_fields)

lemma ex_sender_key:
  "publicToAddress demo_crypto (secp_public demo_crypto ex_key) =
     Inr [0, 0, 0, 0, 0, 0, 0, 0, 0, 0, 0, 0, 232, 224, 253, 170, 169, 27, 120, 17]"
  by (simp add: publicToAddress_def demo_crypto_def ex_key_def setLength_def keccak_eval
        replicate_numeral)

lemma ex_sender_text:
  "HexToAOA (hexlify [0, 0, 0, 0, 0, 0, 0, 0, 0, 0, 0, 0, 232, 224, 253, 170, 169, 27, 120, 17]) =
     ''AOA000000000000000000000000e8e0fdaaa91b7811''"
  by (simp add: HexToAOA_def hexlify_def hex_byte_def hexdigit_def)

lemma ex_signed_frame:
  "p_senderPubKey (snd (sign demo_crypto ex_key (Some 1) (mk_tx ex_raw 1))) = None"
  using sign_run [OF ex_sign] by (simp add: same_frame_def mk_tx_def)

lemma ex_core:
  "fst (verifySignature demo_crypto (snd (sign demo_crypto ex_key (Some 1) (mk_tx ex_raw 1)))) =
     Inr True \<and>
   p_senderPubKey (snd (verifySignature demo_crypto
       (snd (sign demo_crypto ex_key (Some 1) (mk_tx ex_raw 1))))) =
     Some (secp_public demo_crypto ex_key) \<and>
   p_from (snd (sign demo_crypto ex_key (Some 1) (mk_tx ex_raw 1))) = None"
proof -
  define h where "h = keccak256 demo_crypto (rlp_list (signing_raw (Some 1) (this_raw (mk_tx ex_raw 1))))"
  define sig where "sig = xor_bytes (setLength h 32) (setLength ex_key 32) @ setLength [1] 32"
  have unset: "tx_action (mk_tx ex_raw 1) = []" "tx_subAddress (mk_tx ex_raw 1) = []"
    "tx_r (mk_tx ex_raw 1) = []" "tx_s (mk_tx ex_raw 1) = []"
    by (simp_all add: ex_raw_def)
  have nofrom: "p_from (mk_tx ex_raw 1) = None" by (simp add: mk_tx_def)
  have hh: "fst (hash demo_crypto (Some True) (Some 1) (mk_tx ex_raw 1)) = Inr h"
    unfolding h_def by (rule fst_hash_signed)
  have sg: "secp_sign demo_crypto h ex_key = Some (sig, 0)"
    unfolding sig_def by (rule demo_sign)
  have len: "length sig = 64" by (simp add: sig_def)
  have lows: "bn (drop 32 sig) \<le> secp256k1n div 2"
    by (simp add: sig_def bn_one_padded secp256k1n_def)
  have rc: "secp_recover demo_crypto h sig 0 = Some (secp_public demo_crypto ex_key)"
    unfolding sig_def by (rule demo_recover)
  have pub: "length (secp_public demo_crypto ex_key) = 64"
    by (simp add: demo_crypto_def)
  show ?thesis
    using sign_verify_core [OF ex_inv unset nofrom hh sg len _ lows rc pub] by simp
qed

text \<open>
  Claim C3 against the code, at the example transfer signed for chain 1 (its two bytes
  of data are what matters). \<open>verifySignature\<close> accepts the object and the sender is
  the address of the signing key. \<open>decodeTx\<close> on the serialized object hashes empty
  buffers in the places of \<open>data\<close>, \<open>vote\<close>, \<open>nickname\<close>, \<open>asset\<close>, \<open>assetInfo\<close>
  and \<open>abi\<close>: its pre-image differs from the one of \<open>verifySignature\<close> (which has
  \<open>0x82 0x7f 0x00\<close> for the data), and with the example instance the address it
  recovers is another one.
\<close>

theorem decodeTx_sender_mismatch:
  "Transaction ex_data = Inr (mk_tx ex_raw 1) \<and> getChainId (mk_tx ex_raw 1) = 1 \<and>
   fst (sign demo_crypto ex_key (Some 1) (mk_tx ex_raw 1)) = Inr () \<and>
   fst (verifySignature demo_crypto (snd (sign demo_crypto ex_key (Some 1) (mk_tx ex_raw 1)))) =
     Inr True \<and>
   fst (getSenderAddress demo_crypto (snd (sign demo_crypto ex_key (Some 1) (mk_tx ex_raw 1)))) =
     Inr [0, 0, 0, 0, 0, 0, 0, 0, 0, 0, 0, 0, 232, 224, 253, 170, 169, 27, 120, 17] \<and>
   HexToAOA (hexlify [0, 0, 0, 0, 0, 0, 0, 0, 0, 0, 0, 0, 232, 224, 253, 170, 169, 27, 120, 17]) =
     ''AOA000000000000000000000000e8e0fdaaa91b7811'' \<and>
   serialize (snd (sign demo_crypto ex_key (Some 1) (mk_tx ex_raw 1))) = Inr ex_wire \<and>
   decodeTx demo_crypto ex_wire = Inr ex_obj \<and>
   o_from ex_obj = ''AOA000000000000000000000000d9d784d9dc70f00b'' \<and>
   rlp_encode (verify_items ((snd (sign demo_crypto ex_key (Some 1) (mk_tx ex_raw 1)))
                               \<lparr>p_chainId := 1\<rparr>)) =
     Inr [235, 128, 130, 3, 232, 131, 1, 134, 160, 148, 17, 34, 51, 68, 85, 102, 119, 136, 153,
          170, 187, 204, 221, 238, 255, 1, 2, 3, 4, 5, 128, 130, 127, 0, 128, 128, 128, 128, 128,
          128, 128, 1, 128, 128] \<and>
   rlp_encode (decode_items ''0x'' ''0x03e8'' ''0x0186a0''
                 ''0x112233445566778899aabbccddeeff0102030405'' ''0x'' ''0x'' ''0x'') =
     Inr [233, 128, 130, 3, 232, 131, 1, 134, 160, 148, 17, 34, 51, 68, 85, 102, 119, 136, 153,
          170, 187, 204, 221, 238, 255, 1, 2, 3, 4, 5, 128, 128, 128, 128, 128, 128, 128, 128,
          128, 1, 128, 128]"
proof -
  define t1 where "t1 = snd (sign demo_crypto ex_key (Some 1) (mk_tx ex_raw 1))"
  have raw1: "this_raw t1 = ex_signed" and ok: "fst (sign demo_crypto ex_key (Some 1) (mk_tx ex_raw 1)) = Inr ()"
    using ex_signed_raw by (simp_all add: t1_def)
  have key1: "p_senderPubKey t1 = None" using ex_signed_frame by (simp add: t1_def)
  from ex_core have ver: "fst (verifySignature demo_crypto t1) = Inr True"
    and key2: "p_senderPubKey (snd (verifySignature demo_crypto t1)) =
                 Some (secp_public demo_crypto ex_key)"
    and from1: "p_from t1 = None"
    by (simp_all add: t1_def)
  have addr: "fst (getSenderAddress demo_crypto t1) =
     Inr [0, 0, 0, 0, 0, 0, 0, 0, 0, 0, 0, 0, 232, 224, 253, 170, 169, 27, 120, 17]"
    by (simp add: fst_getSenderAddress fst_getSenderPublicKey from1 key1 ver key2 ex_sender_key)
  have inv1: "p_subAddress (t1\<lparr>p_chainId := 1\<rparr>) = None"
    using signed_state [OF ex_inv ex_sign] by (simp add: t1_def tx_inv_def)
  have pre1: "rlp_encode (verify_items (t1\<lparr>p_chainId := 1\<rparr>)) =
     Inr [235, 128, 130, 3, 232, 131, 1, 134, 160, 148, 17, 34, 51, 68, 85, 102, 119, 136, 153,
          170, 187, 204, 221, 238, 255, 1, 2, 3, 4, 5, 128, 130, 127, 0, 128, 128, 128, 128, 128,
          128, 128, 1, 128, 128]"
    using inv1
    by (simp add: verify_items_def raw1 ex_signed_def ex_to_def rlp_encode_def encode_buffer_def
          encodeLength_def intToBuffer_def)
  have pre2: "rlp_encode (decode_items ''0x'' ''0x03e8'' ''0x0186a0''
                 ''0x112233445566778899aabbccddeeff0102030405'' ''0x'' ''0x'' ''0x'') =
     Inr [233, 128, 130, 3, 232, 131, 1, 134, 160, 148, 17, 34, 51, 68, 85, 102, 119, 136, 153,
          170, 187, 204, 221, 238, 255, 1, 2, 3, 4, 5, 128, 128, 128, 128, 128, 128, 128, 128,
          128, 1, 128, 128]"
    by (simp add: decode_items_def rlp_encode_def rlp_encode_item_def text_eval encode_buffer_def
          encodeLength_def intToBuffer_def)
  have ser: "serialize t1 = Inr ex_wire" using ex_serialize by (simp add: t1_def)
  have frm: "o_from ex_obj = ''AOA000000000000000000000000d9d784d9dc70f00b''"
    by (simp add: ex_obj_def)
  have cid: "getChainId (mk_tx ex_raw 1) = 1" by (simp add: getChainId_def)
  show ?thesis
    using ex_data_run cid ok ver addr ex_sender_text ser ex_decodeTx frm pre1 pre2
    unfolding t1_def by simp
qed

end
